theory Spec2Isabelle
  imports Complex_Main "HOL-Library.Word" "HOL-Library.Sublist"
begin

section \<open>The Doclayer webhook handler of supabase/functions/doclayer-webhook/index.ts\<close>

text \<open>
  The edge function receives a webhook request, checks its HMAC signature, records the
  event in \<open>doclayer_webhook_events\<close>, routes it by event type to a handler that
  writes the matching table, marks the event processed and answers.

  Strings are \<open>string\<close>. Byte arrays (\<open>Uint8Array\<close>) are lists of \<open>8 word\<close>.
  The platform's keyed hash (\<open>TextEncoder.encode\<close> and \<open>crypto.subtle.sign\<close> with HMAC
  and SHA-256) is a parameter \<open>hmac secret payload\<close> giving the digest bytes; nothing is
  assumed about it. Converting a value to text (\<open>String\<close>, a template literal, a query
  filter) is modelled with the one case in which it throws for a parsed JSON value.
\<close>

subsection \<open>JSON values and JavaScript's dynamic operations\<close>

text \<open>
  A parsed JSON value. JavaScript's \<open>undefined\<close> is \<open>None\<close> of \<open>jval option\<close>: it is
  what reading a missing property gives, and \<open>JSON.stringify\<close> drops a member that
  holds it.
\<close>

datatype jval =
    JNull
  | JBool bool
  | JNum rat
  | JStr string
  | JArr "jval list"
  | JObj "(string \<times> jval) list"

text \<open>
  A thrown value: an instance of \<open>Error\<close> with its message, or any other value (the
  error object a database call reports is thrown as it is).
\<close>

datatype thrown = JsError string | Thrown jval

fun truthy :: "jval option \<Rightarrow> bool" where
  "truthy None = False"
| "truthy (Some JNull) = False"
| "truthy (Some (JBool b)) = b"
| "truthy (Some (JNum n)) = (n \<noteq> 0)"
| "truthy (Some (JStr s)) = (s \<noteq> [])"
| "truthy (Some (JArr xs)) = True"
| "truthy (Some (JObj kvs)) = True"

definition nullish :: "jval option \<Rightarrow> bool" where
  "nullish v = (v = None \<or> v = Some JNull)"

text \<open>
  Reading property \<open>k\<close> of a value that is neither \<open>undefined\<close> nor \<open>null\<close>. None of
  the names the handler reads is a built-in property of a string, number, boolean or
  array, so those give \<open>undefined\<close>.
\<close>

fun field :: "jval option \<Rightarrow> string \<Rightarrow> jval option" where
  "field (Some (JObj kvs)) k = map_of kvs k"
| "field v k = None"

text \<open>Reading a property of \<open>undefined\<close> or \<open>null\<close> throws a TypeError (V8's message).\<close>

definition type_error :: "jval option \<Rightarrow> string \<Rightarrow> thrown" where
  "type_error v k =
     JsError (''Cannot read properties of '' @ (if v = None then ''undefined'' else ''null'')
              @ '' (reading '' @ [CHR 0x27] @ k @ [CHR 0x27] @ '')'')"

text \<open>
  Whether \<open>String(v)\<close> returns (\<open>converts\<close>; \<open>undefined\<close> does). Converting an object looks up \<open>toString\<close> and then
  \<open>valueOf\<close> and throws a TypeError when neither gives a primitive: a parsed JSON object
  with a member named \<open>toString\<close> hides \<open>Object.prototype.toString\<close> behind a value that
  cannot be called, and \<open>Object.prototype.valueOf\<close> returns the object itself. An array is
  joined, which converts every element that is neither \<open>null\<close> nor \<open>undefined\<close>.
\<close>

fun printable :: "jval \<Rightarrow> bool" where
  "printable (JArr xs) = list_all printable xs"
| "printable (JObj kvs) = (map_of kvs ''toString'' = None)"
| "printable v = True"

definition converts :: "jval option \<Rightarrow> bool" where
  "converts v = (case v of None \<Rightarrow> True | Some x \<Rightarrow> printable x)"

definition conversion_error :: thrown where
  "conversion_error = JsError ''Cannot convert object to primitive value''"

text \<open>An object literal in source order; \<open>present\<close> keeps the members that are defined.\<close>

type_synonym obj = "(string \<times> jval option) list"

fun present :: "obj \<Rightarrow> (string \<times> jval) list" where
  "present [] = []"
| "present ((k, None) # kvs) = present kvs"
| "present ((k, Some v) # kvs) = (k, v) # present kvs"

subsection \<open>Signature verification\<close>

type_synonym byte = "8 word"

text \<open>\<open>n.toString(16)\<close> for a non-negative integer: lower-case digits, no leading zero.\<close>

definition hex_digit :: "nat \<Rightarrow> char" where
  "hex_digit d = ''0123456789abcdef'' ! d"

function toString16 :: "nat \<Rightarrow> string" where
  "toString16 n = (if n < 16 then [hex_digit n] else toString16 (n div 16) @ [hex_digit (n mod 16)])"
  by pat_completeness auto
termination
  by (relation "measure id") auto

text \<open>\<open>s.padStart(n, c)\<close> with a one-character filler.\<close>

definition padStart :: "nat \<Rightarrow> char \<Rightarrow> string \<Rightarrow> string" where
  "padStart n c s = (if n \<le> length s then s else replicate (n - length s) c @ s)"

text \<open>
  \<open>Array.from(bytes).map((b) => b.toString(16).padStart(2, "0")).join("")\<close>
\<close>

definition hexEncode :: "byte list \<Rightarrow> string" where
  "hexEncode bs = concat (map (\<lambda>b. padStart 2 (CHR ''0'') (toString16 (unat b))) bs)"

text \<open>\<open>s.replace(pat, rep)\<close> with a string pattern: the first occurrence only.\<close>

fun replace_first :: "string \<Rightarrow> string \<Rightarrow> string \<Rightarrow> string" where
  "replace_first pat rep [] = (if pat = [] then rep else [])"
| "replace_first pat rep (c # cs) =
     (if prefix pat (c # cs) then rep @ drop (length pat) (c # cs)
      else c # replace_first pat rep cs)"

text \<open>
  \<open>verifySignature(payload, signature, secret)\<close>. \<open>!signature\<close> holds of the empty
  string. \<open>crypto.subtle.importKey\<close> refuses an HMAC key of length zero with a
  \<open>DataError\<close>, so with the empty secret the function throws once the prefix check has
  passed; \<open>encoder.encode(secret)\<close> is empty for the empty string only.
\<close>

definition verifySignature ::
  "(string \<Rightarrow> string \<Rightarrow> byte list) \<Rightarrow> string \<Rightarrow> string \<Rightarrow> string \<Rightarrow> thrown + bool" where
  "verifySignature hmac payload signature secret =
     (if signature = [] \<or> \<not> prefix ''sha256='' signature then Inr False
      else
        let expectedSignature = replace_first ''sha256='' [] signature in
        if secret = [] then Inl (JsError ''Key length is zero'')
        else
          let signatureBuffer = hmac secret payload;
              computedSignature = hexEncode signatureBuffer
          in Inr (computedSignature = expectedSignature))"

subsection \<open>The environment of one request\<close>

text \<open>
  Everything the handler reads from outside: the process environment
  (\<open>Deno.env.get\<close>), the platform functions, the clock, and the verdict of the database
  and of the Doclayer API on each call. Each pair of table and operation occurs at most
  once in a request, so \<open>db_error\<close> fixes the \<open>error\<close> member of every database result:
  \<open>None\<close> when the call was accepted, the error object otherwise, whatever made the
  database refuse (a missing table, a violated constraint, a value the column's type
  does not take). \<open>String_of\<close> is JavaScript's text of a number, array or object, and
  \<open>db_text\<close> the text the database stores in a \<open>TEXT\<close> column for a value that is not
  a string. \<open>SUPABASE_URL\<close> and \<open>SUPABASE_SERVICE_ROLE_KEY\<close> are asserted present by
  the source (\<open>!\<close>), the platform setting them for every function, and only configure
  the client.
\<close>

datatype db_op = Insert | Upsert | Update | Select

datatype fetch_result =
    FetchThrew thrown
  | Response bool jval "thrown + jval"

record env =
  DOCLAYER_WEBHOOK_SECRET :: "string option"
  DOCLAYER_API_KEY :: "string option"
  DOCLAYER_API_URL :: "string option"
  hmac_sha256 :: "string \<Rightarrow> string \<Rightarrow> byte list"
  JSON_parse :: "string \<Rightarrow> string + jval"
  String_of :: "jval \<Rightarrow> string"
  db_text :: "jval \<Rightarrow> string"
  now_iso :: string
  gen_random_uuid :: "nat \<Rightarrow> string"
  db_error :: "string \<Rightarrow> db_op \<Rightarrow> thrown option"
  fetch :: "string \<Rightarrow> string \<Rightarrow> fetch_result"

text \<open>
  \<open>String(v)\<close>, as a template literal and a query filter apply it: it throws for a value
  that does not convert; the text of a number, array or object is the platform's
  (\<open>String_of\<close>).
\<close>

definition js_text :: "env \<Rightarrow> jval option \<Rightarrow> string" where
  "js_text e v =
     (case v of
        None \<Rightarrow> ''undefined''
      | Some JNull \<Rightarrow> ''null''
      | Some (JBool b) \<Rightarrow> (if b then ''true'' else ''false'')
      | Some (JStr s) \<Rightarrow> s
      | Some x \<Rightarrow> String_of e x)"

definition js_string :: "env \<Rightarrow> jval option \<Rightarrow> thrown + string" where
  "js_string e v = (if converts v then Inr (js_text e v) else Inl conversion_error)"

text \<open>
  A template literal: its literal parts and its substitutions in source order. The
  substitutions are converted from left to right, and the first that throws ends the
  evaluation.
\<close>

datatype piece = Lit string | Sub "jval option"

fun template :: "env \<Rightarrow> piece list \<Rightarrow> thrown + string" where
  "template e [] = Inr []"
| "template e (Lit s # ps) =
     (case template e ps of Inl err \<Rightarrow> Inl err | Inr r \<Rightarrow> Inr (s @ r))"
| "template e (Sub v # ps) =
     (case js_string e v of
        Inl err \<Rightarrow> Inl err
      | Inr s \<Rightarrow> (case template e ps of Inl err \<Rightarrow> Inl err | Inr r \<Rightarrow> Inr (s @ r)))"

text \<open>\<open>Deno.env.get(name)\<close> used as a condition: set and not empty.\<close>

definition configured :: "string option \<Rightarrow> bool" where
  "configured v = (case v of None \<Rightarrow> False | Some s \<Rightarrow> s \<noteq> [])"

subsection \<open>The database and the console\<close>

text \<open>
  A row maps column names to values; a column that is absent is SQL \<open>NULL\<close>. A table is
  the list of its rows in insertion order, and \<open>tables w name\<close> is
  \<open>supabase.from(name)\<close>. \<open>inserted\<close> counts the rows inserted so far and numbers
  the generated primary keys.
\<close>

type_synonym row = "string \<rightharpoonup> jval"

datatype log_entry = Log string | Err string "thrown option"

record world =
  tables :: "string \<Rightarrow> row list"
  inserted :: nat
  console :: "log_entry list"

definition console_log :: "string \<Rightarrow> world \<Rightarrow> world" where
  "console_log s w = w\<lparr>console := console w @ [Log s]\<rparr>"

definition console_error :: "string \<Rightarrow> thrown option \<Rightarrow> world \<Rightarrow> world" where
  "console_error s x w = w\<lparr>console := console w @ [Err s x]\<rparr>"

text \<open>
  \<open>console.log\<close> of a template literal: evaluating the literal may throw, and then
  nothing is printed.
\<close>

definition log_template :: "env \<Rightarrow> piece list \<Rightarrow> world \<Rightarrow> thrown option \<times> world" where
  "log_template e ps w =
     (case template e ps of
        Inl err \<Rightarrow> (Some err, w)
      | Inr s \<Rightarrow> (None, console_log s w))"

text \<open>
  The columns the migrations declare \<open>TEXT\<close>. The database converts the JSON value sent
  for such a column to text: a JSON string to its characters, any other value but
  \<open>null\<close> to its JSON text (\<open>db_text\<close>). Unique constraints and \<open>eq\<close> filters on these
  columns therefore compare texts. A value sent for a column of another type is kept in
  the row as it was sent.
\<close>

definition text_columns :: "string \<Rightarrow> string list" where
  "text_columns t =
     (if t = ''doclayer_documents'' then
        [''doclayer_job_id'', ''doclayer_document_id'', ''filename'', ''file_type'',
         ''checksum'', ''status'', ''error_message'', ''error_type'', ''agent_template_id'',
         ''project_id'']
      else if t = ''doclayer_extractions'' then
        [''extraction_type'', ''extraction_key'', ''source_text'']
      else if t = ''doclayer_webhook_events'' then
        [''event_type'', ''event_id'', ''error_message'']
      else if t = ''doclayer_batches'' then
        [''batch_id'', ''project_id'', ''status'', ''error_message'', ''error_type'']
      else if t = ''doclayer_billing_alerts'' then
        [''alert_type'', ''currency'']
      else if t = ''doclayer_usage_reports'' then
        [''currency'']
      else if t = ''doclayer_workflows'' then
        [''workflow_id'', ''workflow_type'', ''document_id'', ''status'', ''error_message'',
         ''error_type'']
      else [])"

definition as_text :: "env \<Rightarrow> jval \<Rightarrow> jval" where
  "as_text e v = (case v of JNull \<Rightarrow> JNull | JStr s \<Rightarrow> JStr s | x \<Rightarrow> JStr (db_text e x))"

definition columns :: "obj \<Rightarrow> row" where
  "columns kvs = map_of (present kvs)"

text \<open>The columns of table \<open>t\<close> that a request body \<open>x\<close> sets, as the database stores them.\<close>

definition stored :: "env \<Rightarrow> string \<Rightarrow> obj \<Rightarrow> row" where
  "stored e t x =
     (\<lambda>c. if c \<in> set (text_columns t) then map_option (as_text e) (columns x c)
          else columns x c)"

text \<open>The column defaults of the migrations (\<open>DEFAULT\<close> clauses).\<close>

definition defaults :: "env \<Rightarrow> nat \<Rightarrow> string \<Rightarrow> row" where
  "defaults e n t =
     (if t = ''doclayer_webhook_events'' then
        [''id'' \<mapsto> JStr (gen_random_uuid e n), ''processed'' \<mapsto> JBool False,
         ''received_at'' \<mapsto> JStr (now_iso e), ''signature_valid'' \<mapsto> JBool False]
      else if t = ''doclayer_documents'' then
        [''id'' \<mapsto> JStr (gen_random_uuid e n), ''status'' \<mapsto> JStr ''pending'',
         ''insights_count'' \<mapsto> JNum 0, ''created_at'' \<mapsto> JStr (now_iso e),
         ''updated_at'' \<mapsto> JStr (now_iso e)]
      else if t = ''doclayer_extractions'' then
        [''id'' \<mapsto> JStr (gen_random_uuid e n), ''created_at'' \<mapsto> JStr (now_iso e)]
      else if t = ''doclayer_batches'' then
        [''id'' \<mapsto> JStr (gen_random_uuid e n), ''total_documents'' \<mapsto> JNum 0,
         ''completed_count'' \<mapsto> JNum 0, ''failed_count'' \<mapsto> JNum 0,
         ''status'' \<mapsto> JStr ''pending'', ''created_at'' \<mapsto> JStr (now_iso e),
         ''updated_at'' \<mapsto> JStr (now_iso e)]
      else if t = ''doclayer_billing_alerts'' then
        [''id'' \<mapsto> JStr (gen_random_uuid e n), ''currency'' \<mapsto> JStr ''USD'',
         ''acknowledged'' \<mapsto> JBool False, ''created_at'' \<mapsto> JStr (now_iso e)]
      else if t = ''doclayer_usage_reports'' then
        [''id'' \<mapsto> JStr (gen_random_uuid e n), ''total_documents'' \<mapsto> JNum 0,
         ''total_pages'' \<mapsto> JNum 0, ''total_cost'' \<mapsto> JNum 0,
         ''currency'' \<mapsto> JStr ''USD'', ''created_at'' \<mapsto> JStr (now_iso e)]
      else if t = ''doclayer_workflows'' then
        [''id'' \<mapsto> JStr (gen_random_uuid e n), ''status'' \<mapsto> JStr ''pending'',
         ''created_at'' \<mapsto> JStr (now_iso e), ''updated_at'' \<mapsto> JStr (now_iso e)]
      else Map.empty)"

text \<open>
  The triggers \<open>trigger_doclayer_documents_updated_at\<close>,
  \<open>trigger_doclayer_batches_updated_at\<close> and \<open>trigger_doclayer_workflows_updated_at\<close>:
  before every update of a row of these tables, \<open>updated_at\<close> becomes \<open>NOW()\<close>.
\<close>

definition on_update :: "env \<Rightarrow> string \<Rightarrow> row \<Rightarrow> row" where
  "on_update e t r =
     (if t = ''doclayer_documents'' \<or> t = ''doclayer_batches'' \<or> t = ''doclayer_workflows''
      then r(''updated_at'' \<mapsto> JStr (now_iso e)) else r)"

fun add_rows :: "env \<Rightarrow> string \<Rightarrow> obj list \<Rightarrow> world \<Rightarrow> world" where
  "add_rows e t [] w = w"
| "add_rows e t (x # xs) w =
     add_rows e t xs
       (w\<lparr>tables := (tables w)(t := tables w t @ [defaults e (inserted w) t ++ stored e t x]),
          inserted := Suc (inserted w)\<rparr>)"

text \<open>
  \<open>.insert(rows)\<close>: the rows are appended, or nothing is written and an error reported.
  Whether the database accepts a call is the environment's (\<open>db_error\<close>).
\<close>

definition db_insert :: "env \<Rightarrow> string \<Rightarrow> obj list \<Rightarrow> world \<Rightarrow> thrown option \<times> world" where
  "db_insert e t xs w =
     (case db_error e t Insert of
        Some err \<Rightarrow> (Some err, w)
      | None \<Rightarrow> (None, add_rows e t xs w))"

text \<open>
  \<open>.upsert(row, { onConflict: c })\<close>: \<open>INSERT ... ON CONFLICT (c) DO UPDATE\<close> setting
  the columns given. A row whose column \<open>c\<close> holds the stored value of the new row's
  (\<open>NULL\<close> conflicts with nothing) is updated in place; with no such row the new row is
  inserted.
\<close>

definition conflicts :: "string \<Rightarrow> row \<Rightarrow> row \<Rightarrow> bool" where
  "conflicts c r old = (r c \<noteq> None \<and> r c \<noteq> Some JNull \<and> old c = r c)"

definition db_upsert :: "env \<Rightarrow> string \<Rightarrow> obj \<Rightarrow> string \<Rightarrow> world \<Rightarrow> thrown option \<times> world" where
  "db_upsert e t x c w =
     (case db_error e t Upsert of
        Some err \<Rightarrow> (Some err, w)
      | None \<Rightarrow>
          if list_ex (conflicts c (stored e t x)) (tables w t)
          then (None, w\<lparr>tables := (tables w)(t :=
                  map (\<lambda>old. if conflicts c (stored e t x) old
                             then on_update e t (old ++ stored e t x) else old) (tables w t))\<rparr>)
          else (None, add_rows e t [x] w))"

text \<open>
  \<open>.update(values).eq(c, v)\<close>: the filter is the text \<open>v\<close>, and every row whose column
  \<open>c\<close> holds that text gets the values; no row is ever added.
\<close>

definition db_update :: "env \<Rightarrow> string \<Rightarrow> obj \<Rightarrow> string \<Rightarrow> string \<Rightarrow> world \<Rightarrow> thrown option \<times> world" where
  "db_update e t x c v w =
     (case db_error e t Update of
        Some err \<Rightarrow> (Some err, w)
      | None \<Rightarrow>
          (None, w\<lparr>tables := (tables w)(t :=
             map (\<lambda>old. if old c = Some (JStr v)
                        then on_update e t (old ++ stored e t x) else old) (tables w t))\<rparr>))"

text \<open>
  \<open>.select("id").eq(c, v).single()\<close>: the \<open>data\<close> member, which is \<open>null\<close> unless
  exactly one row matches.
\<close>

definition db_select_single_id :: "env \<Rightarrow> string \<Rightarrow> string \<Rightarrow> string \<Rightarrow> world \<Rightarrow> jval option" where
  "db_select_single_id e t c v w =
     (case db_error e t Select of
        Some err \<Rightarrow> None
      | None \<Rightarrow>
          (case filter (\<lambda>r. r c = Some (JStr v)) (tables w t) of
             [r] \<Rightarrow> Some (JObj (present [(''id'', r ''id'')]))
           | _ \<Rightarrow> None))"

subsection \<open>Document handlers\<close>

text \<open>
  A handler returns the value it threw, if any, and the world it left. Every handler
  reads a property of \<open>data\<close> before its database call, which throws when \<open>data\<close> is
  \<open>undefined\<close> or \<open>null\<close>. \<open>new Date().toISOString()\<close> is \<open>now_iso\<close>. The template
  literal of a handler's last \<open>console.log\<close> is evaluated after the database call and
  outside any \<open>try\<close>, so a substitution that cannot be converted makes the handler
  throw with its write already done.
\<close>

text \<open>The rows the three document handlers hand to \<open>upsert\<close> (the object literals).\<close>

definition started_object :: "jval option \<Rightarrow> jval \<Rightarrow> obj" where
  "started_object data rawPayload =
     [(''doclayer_job_id'', field data ''job_id''),
      (''checksum'', field data ''checksum''),
      (''status'', Some (JStr ''processing'')),
      (''doclayer_created_at'', field data ''timestamp''),
      (''raw_payload'', Some rawPayload)]"

definition completed_object :: "env \<Rightarrow> jval option \<Rightarrow> jval \<Rightarrow> obj" where
  "completed_object e data rawPayload =
     [(''doclayer_job_id'', field data ''job_id''),
      (''doclayer_document_id'', field data ''document_id''),
      (''status'', Some (JStr ''completed'')),
      (''insights_count'', field data ''insights_count''),
      (''confidence_metrics'', field data ''confidence_metrics''),
      (''raw_payload'', Some rawPayload),
      (''updated_at'', Some (JStr (now_iso e)))]"

definition failed_object :: "env \<Rightarrow> jval option \<Rightarrow> jval \<Rightarrow> obj" where
  "failed_object e data rawPayload =
     [(''doclayer_job_id'', field data ''job_id''),
      (''doclayer_document_id'', field data ''document_id''),
      (''status'', Some (JStr ''failed'')),
      (''error_message'', field data ''error''),
      (''error_type'', field data ''error_type''),
      (''raw_payload'', Some rawPayload),
      (''updated_at'', Some (JStr (now_iso e)))]"

definition handleProcessingStarted ::
  "env \<Rightarrow> jval option \<Rightarrow> jval \<Rightarrow> world \<Rightarrow> thrown option \<times> world" where
  "handleProcessingStarted e data rawPayload w =
     (if nullish data then (Some (type_error data ''job_id''), w)
      else
        case db_upsert e ''doclayer_documents'' (started_object data rawPayload)
               ''doclayer_job_id'' w of
          (Some error, w1) \<Rightarrow>
            (Some error, console_error ''Failed to insert document:'' (Some error) w1)
        | (None, w1) \<Rightarrow>
            log_template e
              [Lit ''Document processing started: '', Sub (field data ''job_id'')] w1)"

text \<open>One element of the API's \<open>extractions\<close> array as a row of \<open>doclayer_extractions\<close>.\<close>

definition extraction_row :: "jval option \<Rightarrow> jval \<Rightarrow> obj" where
  "extraction_row docId ext =
     [(''document_id'', docId),
      (''extraction_type'',
         if truthy (field (Some ext) ''type'') then field (Some ext) ''type''
         else Some (JStr ''unknown'')),
      (''extraction_key'', field (Some ext) ''key''),
      (''content'',
         if truthy (field (Some ext) ''value'') then field (Some ext) ''value''
         else if truthy (field (Some ext) ''content'') then field (Some ext) ''content''
         else Some ext),
      (''confidence'', field (Some ext) ''confidence''),
      (''page_number'', field (Some ext) ''page''),
      (''source_text'', field (Some ext) ''source_text'')]"

text \<open>
  \<open>(extractionsData.extractions || []).map(...)\<close>: a TypeError when the response is
  \<open>null\<close>, when \<open>extractions\<close> is truthy and not an array, or when an element is
  \<open>null\<close>.
\<close>

definition build_extractions :: "jval \<Rightarrow> jval option \<Rightarrow> thrown + obj list" where
  "build_extractions extractionsData docId =
     (if nullish (Some extractionsData) then Inl (type_error (Some extractionsData) ''extractions'')
      else
        let xs = field (Some extractionsData) ''extractions'' in
        if \<not> truthy xs then Inr []
        else
          case xs of
            Some (JArr exts) \<Rightarrow>
              if JNull \<in> set exts then Inl (type_error (Some JNull) ''type'')
              else Inr (map (extraction_row docId) exts)
          | _ \<Rightarrow> Inl (JsError ''(extractionsData.extractions || []).map is not a function''))"

text \<open>
  The \<open>try\<close> block of \<open>fetchAndStoreExtractions\<close>: what it throws, if anything, and the
  world it leaves.
\<close>

definition storeExtractions ::
  "env \<Rightarrow> jval option \<Rightarrow> jval option \<Rightarrow> string \<Rightarrow> world \<Rightarrow> thrown option \<times> world" where
  "storeExtractions e jobId documentId apiKey w =
     (let baseUrl = (case DOCLAYER_API_URL e of
                       None \<Rightarrow> ''https://api.doclayer.ai''
                     | Some u \<Rightarrow> if u = [] then ''https://api.doclayer.ai'' else u) in
      case template e [Lit baseUrl, Lit ''/api/v4/documents/'', Sub documentId,
                       Lit ''/extractions''] of
        Inl err \<Rightarrow> (Some err, w)
      | Inr url \<Rightarrow>
          (case fetch e url (''Bearer '' @ apiKey) of
             FetchThrew err \<Rightarrow> (Some err, w)
           | Response ok status json \<Rightarrow>
               if \<not> ok then
                 (case template e [Lit ''Failed to fetch extractions: '', Sub (Some status)] of
                    Inl err \<Rightarrow> (Some err, w)
                  | Inr line \<Rightarrow> (None, console_error line None w))
               else
                 (case json of
                    Inl err \<Rightarrow> (Some err, w)
                  | Inr extractionsData \<Rightarrow>
                      (case js_string e jobId of
                         Inl err \<Rightarrow> (Some err, w)
                       | Inr jobKey \<Rightarrow>
                           (case db_select_single_id e ''doclayer_documents''
                                   ''doclayer_job_id'' jobKey w of
                              None \<Rightarrow>
                                (None, console_error
                                         ''Document record not found for extractions'' None w)
                            | Some docRecord \<Rightarrow>
                                (case build_extractions extractionsData
                                        (field (Some docRecord) ''id'') of
                                   Inl err \<Rightarrow> (Some err, w)
                                 | Inr extractions \<Rightarrow>
                                     if 0 < length extractions then
                                       (case db_insert e ''doclayer_extractions'' extractions w of
                                          (Some error, w1) \<Rightarrow>
                                            (None, console_error ''Failed to insert extractions:''
                                                     (Some error) w1)
                                        | (None, w1) \<Rightarrow>
                                            log_template e
                                              [Lit ''Stored '',
                                               Sub (Some (JNum (of_nat (length extractions)))),
                                               Lit '' extractions for '', Sub jobId] w1)
                                     else (None, w)))))))"

text \<open>
  \<open>fetchAndStoreExtractions\<close>: the whole body is inside \<open>try\<close>, and the \<open>catch\<close> only
  logs, so nothing is thrown to the caller.
\<close>

definition fetchAndStoreExtractions ::
  "env \<Rightarrow> jval option \<Rightarrow> jval option \<Rightarrow> string \<Rightarrow> world \<Rightarrow> world" where
  "fetchAndStoreExtractions e jobId documentId apiKey w =
     (case storeExtractions e jobId documentId apiKey w of
        (Some error, w1) \<Rightarrow> console_error ''Error fetching extractions:'' (Some error) w1
      | (None, w1) \<Rightarrow> w1)"

definition handleProcessingCompleted ::
  "env \<Rightarrow> jval option \<Rightarrow> jval \<Rightarrow> world \<Rightarrow> thrown option \<times> world" where
  "handleProcessingCompleted e data rawPayload w =
     (if nullish data then (Some (type_error data ''job_id''), w)
      else
        case db_upsert e ''doclayer_documents'' (completed_object e data rawPayload)
               ''doclayer_job_id'' w of
          (Some error, w1) \<Rightarrow>
            (Some error, console_error ''Failed to update document:'' (Some error) w1)
        | (None, w1) \<Rightarrow>
            (case log_template e
                    [Lit ''Document processing completed: '', Sub (field data ''job_id''),
                     Lit '' ('', Sub (field data ''insights_count''), Lit '' insights)''] w1 of
               (Some error, w2) \<Rightarrow> (Some error, w2)
             | (None, w2) \<Rightarrow>
                 (case DOCLAYER_API_KEY e of
                    None \<Rightarrow> (None, w2)
                  | Some apiKey \<Rightarrow>
                      if apiKey \<noteq> [] \<and> truthy (field data ''document_id'')
                      then (None, fetchAndStoreExtractions e (field data ''job_id'')
                                    (field data ''document_id'') apiKey w2)
                      else (None, w2))))"

definition handleProcessingFailed ::
  "env \<Rightarrow> jval option \<Rightarrow> jval \<Rightarrow> world \<Rightarrow> thrown option \<times> world" where
  "handleProcessingFailed e data rawPayload w =
     (if nullish data then (Some (type_error data ''job_id''), w)
      else
        case db_upsert e ''doclayer_documents'' (failed_object e data rawPayload)
               ''doclayer_job_id'' w of
          (Some error, w1) \<Rightarrow>
            (Some error, console_error ''Failed to update document:'' (Some error) w1)
        | (None, w1) \<Rightarrow>
            log_template e
              [Lit ''Document processing failed: '', Sub (field data ''job_id''),
               Lit '' - '', Sub (field data ''error'')] w1)"

subsection \<open>Batch handlers\<close>

text \<open>
  The batch, billing and workflow handlers log a database error and go on
  (\<open>// Don't throw - table may not exist\<close>). A handler that updates builds its filter
  with \<open>.eq(column, value)\<close>, which converts the value to text before the request is
  sent: when that throws, the database is not called.
\<close>

definition logged :: "string \<Rightarrow> thrown option \<times> world \<Rightarrow> world" where
  "logged message r =
     (case r of (error, w1) \<Rightarrow> if error \<noteq> None then console_error message error w1 else w1)"

definition handleBatchStarted ::
  "env \<Rightarrow> jval option \<Rightarrow> jval \<Rightarrow> world \<Rightarrow> thrown option \<times> world" where
  "handleBatchStarted e data rawPayload w =
     (if nullish data then (Some (type_error data ''batch_id''), w)
      else
        log_template e
          [Lit ''Batch started: '', Sub (field data ''batch_id''), Lit '' ('',
           Sub (field data ''total_documents''), Lit '' documents)'']
          (logged ''Failed to insert batch:''
             (db_upsert e ''doclayer_batches''
                [(''batch_id'', field data ''batch_id''),
                 (''total_documents'', field data ''total_documents''),
                 (''project_id'', field data ''project_id''),
                 (''status'', Some (JStr ''processing'')),
                 (''started_at'', field data ''timestamp''),
                 (''raw_payload'', Some rawPayload)]
                ''batch_id'' w)))"

definition handleBatchProgress ::
  "env \<Rightarrow> jval option \<Rightarrow> jval \<Rightarrow> world \<Rightarrow> thrown option \<times> world" where
  "handleBatchProgress e data rawPayload w =
     (if nullish data then (Some (type_error data ''completed''), w)
      else
        case js_string e (field data ''batch_id'') of
          Inl err \<Rightarrow> (Some err, w)
        | Inr batchId \<Rightarrow>
            log_template e
              [Lit ''Batch progress: '', Sub (field data ''batch_id''), Lit '' - '',
               Sub (field data ''completed''), Lit ''/'', Sub (field data ''total''),
               Lit '' ('', Sub (field data ''failed''), Lit '' failed)'']
              (logged ''Failed to update batch progress:''
                 (db_update e ''doclayer_batches''
                    [(''completed_count'', field data ''completed''),
                     (''failed_count'', field data ''failed''),
                     (''updated_at'', Some (JStr (now_iso e)))]
                    ''batch_id'' batchId w)))"

definition handleBatchCompleted ::
  "env \<Rightarrow> jval option \<Rightarrow> jval \<Rightarrow> world \<Rightarrow> thrown option \<times> world" where
  "handleBatchCompleted e data rawPayload w =
     (if nullish data then (Some (type_error data ''successful''), w)
      else
        case js_string e (field data ''batch_id'') of
          Inl err \<Rightarrow> (Some err, w)
        | Inr batchId \<Rightarrow>
            log_template e
              [Lit ''Batch completed: '', Sub (field data ''batch_id''), Lit '' - '',
               Sub (field data ''successful''), Lit ''/'', Sub (field data ''total_documents''),
               Lit '' successful'']
              (logged ''Failed to update batch:''
                 (db_update e ''doclayer_batches''
                    [(''status'', Some (JStr ''completed'')),
                     (''completed_count'', field data ''successful''),
                     (''failed_count'', field data ''failed''),
                     (''duration_seconds'', field data ''duration_seconds''),
                     (''completed_at'', field data ''timestamp''),
                     (''raw_payload'', Some rawPayload),
                     (''updated_at'', Some (JStr (now_iso e)))]
                    ''batch_id'' batchId w)))"

definition handleBatchFailed ::
  "env \<Rightarrow> jval option \<Rightarrow> jval \<Rightarrow> world \<Rightarrow> thrown option \<times> world" where
  "handleBatchFailed e data rawPayload w =
     (if nullish data then (Some (type_error data ''error''), w)
      else
        case js_string e (field data ''batch_id'') of
          Inl err \<Rightarrow> (Some err, w)
        | Inr batchId \<Rightarrow>
            log_template e
              [Lit ''Batch failed: '', Sub (field data ''batch_id''), Lit '' - '',
               Sub (field data ''error'')]
              (logged ''Failed to update batch:''
                 (db_update e ''doclayer_batches''
                    [(''status'', Some (JStr ''failed'')),
                     (''error_message'', field data ''error''),
                     (''error_type'', field data ''error_type''),
                     (''completed_count'', field data ''completed''),
                     (''raw_payload'', Some rawPayload),
                     (''updated_at'', Some (JStr (now_iso e)))]
                    ''batch_id'' batchId w)))"

subsection \<open>Billing handlers\<close>

definition handleBillingCreditsLow ::
  "env \<Rightarrow> jval option \<Rightarrow> jval \<Rightarrow> world \<Rightarrow> thrown option \<times> world" where
  "handleBillingCreditsLow e data rawPayload w =
     (if nullish data then (Some (type_error data ''current_balance''), w)
      else
        log_template e
          [Lit ''BILLING ALERT: Credits low - '', Sub (field data ''current_balance''),
           Lit '' '', Sub (field data ''currency''), Lit '' (threshold: '',
           Sub (field data ''threshold''), Lit '')'']
          (logged ''Failed to insert billing alert:''
             (db_insert e ''doclayer_billing_alerts''
                [[(''alert_type'', Some (JStr ''credits_low'')),
                  (''current_balance'', field data ''current_balance''),
                  (''threshold'', field data ''threshold''),
                  (''currency'', field data ''currency''),
                  (''raw_payload'', Some rawPayload)]] w)))"

definition handleBillingCreditsExhausted ::
  "env \<Rightarrow> jval option \<Rightarrow> jval \<Rightarrow> world \<Rightarrow> thrown option \<times> world" where
  "handleBillingCreditsExhausted e data rawPayload w =
     (if nullish data then (Some (type_error data ''current_balance''), w)
      else
        log_template e
          [Lit ''BILLING ALERT: Credits exhausted - '', Sub (field data ''current_balance''),
           Lit '' '', Sub (field data ''currency'')]
          (logged ''Failed to insert billing alert:''
             (db_insert e ''doclayer_billing_alerts''
                [[(''alert_type'', Some (JStr ''credits_exhausted'')),
                  (''current_balance'', field data ''current_balance''),
                  (''currency'', field data ''currency''),
                  (''raw_payload'', Some rawPayload)]] w)))"

definition handleBillingUsageReport ::
  "env \<Rightarrow> jval option \<Rightarrow> jval \<Rightarrow> world \<Rightarrow> thrown option \<times> world" where
  "handleBillingUsageReport e data rawPayload w =
     (if nullish data then (Some (type_error data ''period_start''), w)
      else
        log_template e
          [Lit ''Usage report: '', Sub (field data ''period_start''), Lit '' to '',
           Sub (field data ''period_end''), Lit '' - '', Sub (field data ''total_documents''),
           Lit '' docs, '', Sub (field data ''total_cost''), Lit '' '',
           Sub (field data ''currency'')]
          (logged ''Failed to insert usage report:''
             (db_insert e ''doclayer_usage_reports''
                [[(''period_start'', field data ''period_start''),
                  (''period_end'', field data ''period_end''),
                  (''total_documents'', field data ''total_documents''),
                  (''total_pages'', field data ''total_pages''),
                  (''total_cost'', field data ''total_cost''),
                  (''currency'', field data ''currency''),
                  (''raw_payload'', Some rawPayload)]] w)))"

subsection \<open>Workflow handlers\<close>

definition handleWorkflowStarted ::
  "env \<Rightarrow> jval option \<Rightarrow> jval \<Rightarrow> world \<Rightarrow> thrown option \<times> world" where
  "handleWorkflowStarted e data rawPayload w =
     (if nullish data then (Some (type_error data ''workflow_id''), w)
      else
        log_template e
          [Lit ''Workflow started: '', Sub (field data ''workflow_id''), Lit '' ('',
           Sub (field data ''workflow_type''), Lit '')'']
          (logged ''Failed to insert workflow:''
             (db_upsert e ''doclayer_workflows''
                [(''workflow_id'', field data ''workflow_id''),
                 (''workflow_type'', field data ''workflow_type''),
                 (''document_id'', field data ''document_id''),
                 (''status'', Some (JStr ''running'')),
                 (''started_at'', field data ''timestamp''),
                 (''raw_payload'', Some rawPayload)]
                ''workflow_id'' w)))"

definition handleWorkflowCompleted ::
  "env \<Rightarrow> jval option \<Rightarrow> jval \<Rightarrow> world \<Rightarrow> thrown option \<times> world" where
  "handleWorkflowCompleted e data rawPayload w =
     (if nullish data then (Some (type_error data ''result''), w)
      else
        case js_string e (field data ''workflow_id'') of
          Inl err \<Rightarrow> (Some err, w)
        | Inr workflowId \<Rightarrow>
            log_template e
              [Lit ''Workflow completed: '', Sub (field data ''workflow_id''), Lit '' in '',
               Sub (field data ''duration_seconds''), Lit ''s'']
              (logged ''Failed to update workflow:''
                 (db_update e ''doclayer_workflows''
                    [(''status'', Some (JStr ''completed'')),
                     (''result'', field data ''result''),
                     (''duration_seconds'', field data ''duration_seconds''),
                     (''completed_at'', field data ''timestamp''),
                     (''raw_payload'', Some rawPayload),
                     (''updated_at'', Some (JStr (now_iso e)))]
                    ''workflow_id'' workflowId w)))"

definition handleWorkflowFailed ::
  "env \<Rightarrow> jval option \<Rightarrow> jval \<Rightarrow> world \<Rightarrow> thrown option \<times> world" where
  "handleWorkflowFailed e data rawPayload w =
     (if nullish data then (Some (type_error data ''error''), w)
      else
        case js_string e (field data ''workflow_id'') of
          Inl err \<Rightarrow> (Some err, w)
        | Inr workflowId \<Rightarrow>
            log_template e
              [Lit ''Workflow failed: '', Sub (field data ''workflow_id''), Lit '' - '',
               Sub (field data ''error'')]
              (logged ''Failed to update workflow:''
                 (db_update e ''doclayer_workflows''
                    [(''status'', Some (JStr ''failed'')),
                     (''error_message'', field data ''error''),
                     (''error_type'', field data ''error_type''),
                     (''raw_payload'', Some rawPayload),
                     (''updated_at'', Some (JStr (now_iso e)))]
                    ''workflow_id'' workflowId w)))"

subsection \<open>The main handler\<close>

text \<open>
  A request as the handler reads it: the method, \<open>req.headers.get\<close>, and the raw body
  \<open>await req.text()\<close>. A response is its status and the object given to
  \<open>JSON.stringify\<close>.
\<close>

record request =
  req_method :: string
  headers :: "string \<rightharpoonup> string"
  req_text :: string

record response =
  status :: nat
  body :: "(string \<times> jval) list"

definition respond :: "nat \<Rightarrow> obj \<Rightarrow> response" where
  "respond st x = \<lparr>status = st, body = present x\<rparr>"

text \<open>\<open>req.headers.get(name) || d\<close>: an absent and an empty header both give \<open>d\<close>.\<close>

definition header_or :: "request \<Rightarrow> string \<Rightarrow> string \<Rightarrow> string" where
  "header_or req name d =
     (case headers req name of None \<Rightarrow> d | Some h \<Rightarrow> if h = [] then d else h)"

text \<open>
  Lines 175 to 186: with a secret configured (set and not empty) the signature must
  verify; with none the check is skipped.
\<close>

definition signature_check :: "env \<Rightarrow> request \<Rightarrow> thrown + bool" where
  "signature_check e req =
     (case DOCLAYER_WEBHOOK_SECRET e of
        None \<Rightarrow> Inr True
      | Some webhookSecret \<Rightarrow>
          if webhookSecret = [] then Inr True
          else verifySignature (hmac_sha256 e) (req_text req)
                 (header_or req ''x-webhook-signature'' []) webhookSecret)"

definition signature_accepted :: "env \<Rightarrow> request \<Rightarrow> bool" where
  "signature_accepted e req = (signature_check e req = Inr True)"

text \<open>
  \<open>req.headers.get("x-webhook-event") || payload.event_type\<close>: the body's field is
  read only when the header is absent or empty, and reading it throws when the body is
  the JSON \<open>null\<close>.
\<close>

definition event_type_of :: "request \<Rightarrow> jval \<Rightarrow> thrown + jval option" where
  "event_type_of req payload =
     (case headers req ''x-webhook-event'' of
        None \<Rightarrow>
          if nullish (Some payload) then Inl (type_error (Some payload) ''event_type'')
          else Inr (field (Some payload) ''event_type'')
      | Some h \<Rightarrow>
          if h = [] then
            if nullish (Some payload) then Inl (type_error (Some payload) ''event_type'')
            else Inr (field (Some payload) ''event_type'')
          else Inr (Some (JStr h)))"

text \<open>The \<open>catch\<close> block.\<close>

definition internal_error :: "thrown \<Rightarrow> world \<Rightarrow> response \<times> world" where
  "internal_error error w =
     (respond 500
        [(''error'', Some (JStr ''Internal server error'')),
         (''message'', Some (JStr (case error of JsError m \<Rightarrow> m | Thrown v \<Rightarrow> ''Unknown error'')))],
      console_error ''Webhook processing error:'' (Some error) w)"

text \<open>
  \<open>// Log the webhook event\<close>: the result of the insert is not looked at.
\<close>

definition log_event :: "env \<Rightarrow> jval option \<Rightarrow> string \<Rightarrow> jval \<Rightarrow> world \<Rightarrow> world" where
  "log_event e eventType deliveryId payload w =
     snd (db_insert e ''doclayer_webhook_events''
            [[(''event_type'', eventType),
              (''event_id'', Some (JStr deliveryId)),
              (''payload'', Some payload),
              (''signature_valid'', Some (JBool True))]] w)"

text \<open>
  \<open>// Mark webhook as processed\<close>: an update filtered by \<open>event_id\<close>; its result is
  not looked at either.
\<close>

definition mark_processed :: "env \<Rightarrow> string \<Rightarrow> world \<Rightarrow> world" where
  "mark_processed e deliveryId w =
     snd (db_update e ''doclayer_webhook_events''
            [(''processed'', Some (JBool True)),
             (''processed_at'', Some (JStr (now_iso e)))]
            ''event_id'' deliveryId w)"

text \<open>
  \<open>const data = payload.data as ...\<close> in a \<open>case\<close> of the \<open>switch\<close>: reading
  \<open>payload.data\<close> throws when the body is the JSON \<open>null\<close>.
\<close>

definition with_data ::
  "(jval option \<Rightarrow> jval \<Rightarrow> world \<Rightarrow> thrown option \<times> world) \<Rightarrow> jval \<Rightarrow> world \<Rightarrow> thrown option \<times> world" where
  "with_data handler payload w =
     (if nullish (Some payload) then (Some (type_error (Some payload) ''data''), w)
      else handler (field (Some payload) ''data'') payload w)"

text \<open>The \<open>switch (eventType)\<close>: strict equality with each routing key, in source order.\<close>

definition route :: "env \<Rightarrow> jval option \<Rightarrow> jval \<Rightarrow> world \<Rightarrow> thrown option \<times> world" where
  "route e eventType payload w =
     (if eventType = Some (JStr ''document.processing.started'') then
        with_data (handleProcessingStarted e) payload w
      else if eventType = Some (JStr ''document.processing.completed'') then
        with_data (handleProcessingCompleted e) payload w
      else if eventType = Some (JStr ''document.processing.failed'') then
        with_data (handleProcessingFailed e) payload w
      else if eventType = Some (JStr ''batch.started'') then
        with_data (handleBatchStarted e) payload w
      else if eventType = Some (JStr ''batch.progress'') then
        with_data (handleBatchProgress e) payload w
      else if eventType = Some (JStr ''batch.completed'') then
        with_data (handleBatchCompleted e) payload w
      else if eventType = Some (JStr ''batch.failed'') then
        with_data (handleBatchFailed e) payload w
      else if eventType = Some (JStr ''billing.credits.low'') then
        with_data (handleBillingCreditsLow e) payload w
      else if eventType = Some (JStr ''billing.credits.exhausted'') then
        with_data (handleBillingCreditsExhausted e) payload w
      else if eventType = Some (JStr ''billing.usage.report'') then
        with_data (handleBillingUsageReport e) payload w
      else if eventType = Some (JStr ''workflow.started'') then
        with_data (handleWorkflowStarted e) payload w
      else if eventType = Some (JStr ''workflow.completed'') then
        with_data (handleWorkflowCompleted e) payload w
      else if eventType = Some (JStr ''workflow.failed'') then
        with_data (handleWorkflowFailed e) payload w
      else if eventType = Some (JStr ''test.ping'') then
        (None, console_log ''Received test ping from Doclayer'' w)
      else
        log_template e [Lit ''Unhandled event type: '', Sub eventType] w)"

text \<open>\<open>req.headers.get("x-webhook-delivery") || "unknown"\<close>\<close>

definition deliveryId :: "request \<Rightarrow> string" where
  "deliveryId req = header_or req ''x-webhook-delivery'' ''unknown''"

text \<open>
  Lines 193 to 204. The template literal of line 193 converts the event type before the
  audit insert: when that throws, no audit row is written. Otherwise the result is the
  world when the \<open>switch\<close> is entered.
\<close>

definition received ::
  "env \<Rightarrow> request \<Rightarrow> jval option \<Rightarrow> jval \<Rightarrow> world \<Rightarrow> thrown option \<times> world" where
  "received e req eventType payload w =
     (case log_template e
             [Lit ''Processing webhook: '', Sub eventType, Lit '' (delivery: '',
              Sub (Some (JStr (deliveryId req))), Lit '')''] w of
        (Some error, w1) \<Rightarrow> (Some error, w1)
      | (None, w1) \<Rightarrow> (None, log_event e eventType (deliveryId req) payload w1))"

text \<open>Lines 191 to 315: from the delivery identifier to the response.\<close>

definition process :: "env \<Rightarrow> request \<Rightarrow> jval option \<Rightarrow> jval \<Rightarrow> world \<Rightarrow> response \<times> world" where
  "process e req eventType payload w =
     (case received e req eventType payload w of
        (Some error, w2) \<Rightarrow> internal_error error w2
      | (None, w2) \<Rightarrow>
          (case route e eventType payload w2 of
             (Some error, w3) \<Rightarrow> internal_error error w3
           | (None, w3) \<Rightarrow>
               (respond 200
                  [(''success'', Some (JBool True)),
                   (''event_type'', eventType),
                   (''delivery_id'', Some (JStr (deliveryId req)))],
                mark_processed e (deliveryId req) w3)))"

definition serve :: "env \<Rightarrow> request \<Rightarrow> world \<Rightarrow> response \<times> world" where
  "serve e req w =
     (if req_method req \<noteq> ''POST'' then
        (respond 405 [(''error'', Some (JStr ''Method not allowed''))], w)
      else
        case signature_check e req of
          Inl error \<Rightarrow> internal_error error w
        | Inr isValid \<Rightarrow>
            if \<not> isValid then
              (respond 401 [(''error'', Some (JStr ''Invalid signature''))],
               console_error ''Invalid webhook signature'' None w)
            else
              (case JSON_parse e (req_text req) of
                 Inl m \<Rightarrow> internal_error (JsError m) w
               | Inr payload \<Rightarrow>
                   (case event_type_of req payload of
                      Inl error \<Rightarrow> internal_error error w
                    | Inr eventType \<Rightarrow> process e req eventType payload w)))"

text \<open>
  A request is taken up with this payload and event type: it is a POST, its signature is
  accepted, its body parses, and the event type is read (line 190).
\<close>

definition routed :: "env \<Rightarrow> request \<Rightarrow> jval \<Rightarrow> jval option \<Rightarrow> bool" where
  "routed e req payload eventType =
     (req_method req = ''POST'' \<and> signature_accepted e req
      \<and> JSON_parse e (req_text req) = Inr payload
      \<and> event_type_of req payload = Inr eventType)"

text \<open>The routing keys of the \<open>switch\<close>.\<close>

definition routing_keys :: "string list" where
  "routing_keys =
     [''document.processing.started'', ''document.processing.completed'',
      ''document.processing.failed'', ''batch.started'', ''batch.progress'',
      ''batch.completed'', ''batch.failed'', ''billing.credits.low'',
      ''billing.credits.exhausted'', ''billing.usage.report'', ''workflow.started'',
      ''workflow.completed'', ''workflow.failed'', ''test.ping'']"

subsection \<open>Sequences of requests\<close>

text \<open>
  Requests are handled one after the other, each in its own environment. The job key of
  a payload is what the column \<open>doclayer_job_id\<close> stores for its \<open>data.job_id\<close>. A
  request starts job \<open>j\<close> when it is taken up as \<open>document.processing.started\<close> with
  job key \<open>j\<close>.
\<close>

definition job_key :: "env \<Rightarrow> jval \<Rightarrow> jval option" where
  "job_key e payload = map_option (as_text e) (field (field (Some payload) ''data'') ''job_id'')"

definition starts_job :: "env \<Rightarrow> request \<Rightarrow> string \<Rightarrow> bool" where
  "starts_job e req j =
     (case JSON_parse e (req_text req) of
        Inl m \<Rightarrow> False
      | Inr payload \<Rightarrow>
          routed e req payload (Some (JStr ''document.processing.started''))
          \<and> job_key e payload = Some (JStr j))"

fun serve_all :: "(env \<times> request) list \<Rightarrow> world \<Rightarrow> world" where
  "serve_all [] w = w"
| "serve_all ((e, req) # rs) w = serve_all rs (snd (serve e req w))"

subsection \<open>The best-effort handlers\<close>

text \<open>
  For each routing key of a batch, billing or workflow handler: the table and the
  operation of its one database call, and the message it gives \<open>console.error\<close> when
  the call reports an error.
\<close>

definition secondary_write :: "string \<Rightarrow> (string \<times> db_op \<times> string) option" where
  "secondary_write k =
     (if k = ''batch.started'' then
        Some (''doclayer_batches'', Upsert, ''Failed to insert batch:'')
      else if k = ''batch.progress'' then
        Some (''doclayer_batches'', Update, ''Failed to update batch progress:'')
      else if k = ''batch.completed'' then
        Some (''doclayer_batches'', Update, ''Failed to update batch:'')
      else if k = ''batch.failed'' then
        Some (''doclayer_batches'', Update, ''Failed to update batch:'')
      else if k = ''billing.credits.low'' then
        Some (''doclayer_billing_alerts'', Insert, ''Failed to insert billing alert:'')
      else if k = ''billing.credits.exhausted'' then
        Some (''doclayer_billing_alerts'', Insert, ''Failed to insert billing alert:'')
      else if k = ''billing.usage.report'' then
        Some (''doclayer_usage_reports'', Insert, ''Failed to insert usage report:'')
      else if k = ''workflow.started'' then
        Some (''doclayer_workflows'', Upsert, ''Failed to insert workflow:'')
      else if k = ''workflow.completed'' then
        Some (''doclayer_workflows'', Update, ''Failed to update workflow:'')
      else if k = ''workflow.failed'' then
        Some (''doclayer_workflows'', Update, ''Failed to update workflow:'')
      else None)"

text \<open>
  The members of \<open>data\<close> that the handler of each of these keys converts to text, in its
  filter and in the template literal of its last \<open>console.log\<close>.
\<close>

definition converted :: "string \<Rightarrow> string list" where
  "converted k =
     (if k = ''batch.started'' then [''batch_id'', ''total_documents'']
      else if k = ''batch.progress'' then [''batch_id'', ''completed'', ''total'', ''failed'']
      else if k = ''batch.completed'' then [''batch_id'', ''successful'', ''total_documents'']
      else if k = ''batch.failed'' then [''batch_id'', ''error'']
      else if k = ''billing.credits.low'' then [''current_balance'', ''currency'', ''threshold'']
      else if k = ''billing.credits.exhausted'' then [''current_balance'', ''currency'']
      else if k = ''billing.usage.report'' then
        [''period_start'', ''period_end'', ''total_documents'', ''total_cost'', ''currency'']
      else if k = ''workflow.started'' then [''workflow_id'', ''workflow_type'']
      else if k = ''workflow.completed'' then [''workflow_id'', ''duration_seconds'']
      else if k = ''workflow.failed'' then [''workflow_id'', ''error'']
      else [])"

subsection \<open>Reading the tables\<close>

definition events :: "world \<Rightarrow> row list" where
  "events w = tables w ''doclayer_webhook_events''"

definition documents :: "world \<Rightarrow> row list" where
  "documents w = tables w ''doclayer_documents''"

text \<open>
  The row the audit insert writes (lines 199 to 204, over the column defaults), and what
  the final update does to a row of the audit table (lines 297 to 303).
\<close>

definition audit_row :: "env \<Rightarrow> nat \<Rightarrow> jval option \<Rightarrow> string \<Rightarrow> jval \<Rightarrow> row" where
  "audit_row e n eventType d payload =
     defaults e n ''doclayer_webhook_events'' ++
       stored e ''doclayer_webhook_events''
         [(''event_type'', eventType), (''event_id'', Some (JStr d)),
          (''payload'', Some payload), (''signature_valid'', Some (JBool True))]"

definition mark :: "env \<Rightarrow> string \<Rightarrow> row \<Rightarrow> row" where
  "mark e d old =
     (if old ''event_id'' = Some (JStr d)
      then old ++ stored e ''doclayer_webhook_events''
                    [(''processed'', Some (JBool True)),
                     (''processed_at'', Some (JStr (now_iso e)))]
      else old)"

subsection \<open>The document table\<close>

text \<open>
  The rows of a table after an accepted upsert of row \<open>r\<close> on conflict column \<open>c\<close>
  (the two branches of \<open>db_upsert\<close>), the rows of \<open>doclayer_documents\<close> for one job
  identifier, and the terminal statuses of a document.
\<close>

definition upsert_rows :: "env \<Rightarrow> nat \<Rightarrow> string \<Rightarrow> string \<Rightarrow> row \<Rightarrow> row list \<Rightarrow> row list" where
  "upsert_rows e n t c r rows =
     (if list_ex (conflicts c r) rows
      then map (\<lambda>old. if conflicts c r old then on_update e t (old ++ r) else old) rows
      else rows @ [defaults e n t ++ r])"

definition job_rows :: "string \<Rightarrow> world \<Rightarrow> row list" where
  "job_rows j w = filter (\<lambda>r. r ''doclayer_job_id'' = Some (JStr j)) (documents w)"

definition terminal :: "row \<Rightarrow> bool" where
  "terminal r =
     (r ''status'' = Some (JStr ''completed'') \<or> r ''status'' = Some (JStr ''failed'')
      \<or> r ''status'' = Some (JStr ''cancelled''))"


text \<open>The columns the three document handlers write, as the database stores them.\<close>

definition started_columns :: "env \<Rightarrow> jval option \<Rightarrow> jval \<Rightarrow> row" where
  "started_columns e d p = stored e ''doclayer_documents'' (started_object d p)"

definition completed_columns :: "env \<Rightarrow> jval option \<Rightarrow> jval \<Rightarrow> row" where
  "completed_columns e d p = stored e ''doclayer_documents'' (completed_object e d p)"

definition failed_columns :: "env \<Rightarrow> jval option \<Rightarrow> jval \<Rightarrow> row" where
  "failed_columns e d p = stored e ''doclayer_documents'' (failed_object e d p)"

subsection \<open>Example requests\<close>

text \<open>
  Concrete inputs for the closed theorems below. The first body is the scenario of the
  specification; the others are events for the same job and for a batch.
\<close>

definition completed_body :: string where
  \<open>completed_body =
     ''{"data":{"job_id":"job_1","document_id":"doc_1","insights_count":3,"confidence_metrics":{"a":0.9}}}''\<close>

definition completed_payload :: jval where
  "completed_payload =
     JObj [(''data'', JObj [(''job_id'', JStr ''job_1''), (''document_id'', JStr ''doc_1''),
                           (''insights_count'', JNum 3),
                           (''confidence_metrics'', JObj [(''a'', JNum (9 / 10))])])]"

definition started_body :: string where
  \<open>started_body =
     ''{"event_type":"document.processing.started","data":{"job_id":"job_1","checksum":"c0ffee"}}''\<close>

definition started_payload :: jval where
  "started_payload =
     JObj [(''event_type'', JStr ''document.processing.started''),
           (''data'', JObj [(''job_id'', JStr ''job_1''), (''checksum'', JStr ''c0ffee'')])]"

definition failed_body :: string where
  \<open>failed_body =
     ''{"event_type":"document.processing.failed","data":{"job_id":"job_1","error":"unreadable","error_type":"ParseError"}}''\<close>

definition failed_payload :: jval where
  "failed_payload =
     JObj [(''event_type'', JStr ''document.processing.failed''),
           (''data'', JObj [(''job_id'', JStr ''job_1''), (''error'', JStr ''unreadable''),
                           (''error_type'', JStr ''ParseError'')])]"

definition archived_body :: string where
  \<open>archived_body = ''{"event_type":"document.archived","data":{"job_id":"job_1"}}''\<close>

definition archived_payload :: jval where
  "archived_payload =
     JObj [(''event_type'', JStr ''document.archived''),
           (''data'', JObj [(''job_id'', JStr ''job_1'')])]"

definition batch_started_body :: string where
  \<open>batch_started_body =
     ''{"event_type":"batch.started","data":{"batch_id":"batch_1","total_documents":2}}''\<close>

definition batch_started_payload :: jval where
  "batch_started_payload =
     JObj [(''event_type'', JStr ''batch.started''),
           (''data'', JObj [(''batch_id'', JStr ''batch_1''), (''total_documents'', JNum 2)])]"

definition batch_completed_body :: string where
  \<open>batch_completed_body =
     ''{"event_type":"batch.completed","data":{"batch_id":"batch_1","total_documents":2,"successful":2,"failed":0}}''\<close>

definition batch_completed_payload :: jval where
  "batch_completed_payload =
     JObj [(''event_type'', JStr ''batch.completed''),
           (''data'', JObj [(''batch_id'', JStr ''batch_1''), (''total_documents'', JNum 2),
                           (''successful'', JNum 2), (''failed'', JNum 0)])]"

text \<open>A batch event whose \<open>batch_id\<close> is an object with a member named \<open>toString\<close>.\<close>

definition odd_batch_body :: string where
  \<open>odd_batch_body =
     ''{"event_type":"batch.started","data":{"batch_id":{"toString":1},"total_documents":2}}''\<close>

definition odd_batch_payload :: jval where
  "odd_batch_payload =
     JObj [(''event_type'', JStr ''batch.started''),
           (''data'', JObj [(''batch_id'', JObj [(''toString'', JNum 1)]),
                           (''total_documents'', JNum 2)])]"

text \<open>A started event for the job whose identifier is the number 7.\<close>

definition numbered_body :: string where
  \<open>numbered_body = ''{"event_type":"document.processing.started","data":{"job_id":7}}''\<close>

definition numbered_payload :: jval where
  "numbered_payload =
     JObj [(''event_type'', JStr ''document.processing.started''),
           (''data'', JObj [(''job_id'', JNum 7)])]"

definition example_parse :: "string \<Rightarrow> string + jval" where
  "example_parse s =
     (if s = completed_body then Inr completed_payload
      else if s = started_body then Inr started_payload
      else if s = failed_body then Inr failed_payload
      else if s = archived_body then Inr archived_payload
      else if s = batch_started_body then Inr batch_started_payload
      else if s = batch_completed_body then Inr batch_completed_payload
      else if s = odd_batch_body then Inr odd_batch_payload
      else if s = numbered_body then Inr numbered_payload
      else Inl ''Unexpected end of JSON input'')"

definition example_String_of :: "jval \<Rightarrow> string" where
  "example_String_of v =
     (case v of
        JNum n \<Rightarrow> (if n = 0 then ''0'' else if n = 2 then ''2'' else if n = 3 then ''3'' else ''7'')
      | JArr xs \<Rightarrow> []
      | _ \<Rightarrow> ''[object Object]'')"

text \<open>
  The text a \<open>TEXT\<close> column holds for a number or boolean; the examples store no array or
  object in such a column.
\<close>

definition example_db_text :: "jval \<Rightarrow> string" where
  "example_db_text v =
     (case v of
        JNum n \<Rightarrow> example_String_of (JNum n)
      | JBool b \<Rightarrow> (if b then ''true'' else ''false'')
      | JArr xs \<Rightarrow> ''[]''
      | _ \<Rightarrow> ''{}'')"

text \<open>
  A stand-in for the keyed hash with digests of 32 bytes: the last byte counts the
  characters of the secret and of the payload.
\<close>

definition example_hmac :: "string \<Rightarrow> string \<Rightarrow> byte list" where
  "example_hmac secret payload = replicate 31 0 @ [of_nat (length secret + length payload)]"

text \<open>
  An environment with no secret, no API key, and a database that accepts every call.
\<close>

definition example_env :: env where
  "example_env =
     \<lparr>DOCLAYER_WEBHOOK_SECRET = None, DOCLAYER_API_KEY = None, DOCLAYER_API_URL = None,
      hmac_sha256 = example_hmac,
      JSON_parse = example_parse,
      String_of = example_String_of,
      db_text = example_db_text,
      now_iso = ''2024-05-01T12:00:00.000Z'',
      gen_random_uuid = (\<lambda>n. ''row-'' @ replicate n (CHR ''i'')),
      db_error = (\<lambda>t op. None),
      fetch = (\<lambda>url auth. FetchThrew (JsError ''network error''))\<rparr>"

text \<open>The same with a secret configured.\<close>

definition secret_env :: env where
  "secret_env = example_env\<lparr>DOCLAYER_WEBHOOK_SECRET := Some ''whsec_1''\<rparr>"

text \<open>The same with every call on one table refused (the table does not exist).\<close>

definition missing_table_env :: "string \<Rightarrow> env" where
  "missing_table_env name =
     example_env\<lparr>db_error := (\<lambda>t op.
        if t = name then Some (Thrown (JObj [(''code'', JStr ''42P01'')])) else None)\<rparr>"

definition post :: "(string \<times> string) list \<Rightarrow> string \<Rightarrow> request" where
  "post hs b = \<lparr>req_method = ''POST'', headers = map_of hs, req_text = b\<rparr>"

definition empty_world :: world where
  "empty_world = \<lparr>tables = (\<lambda>t. []), inserted = 0, console = []\<rparr>"

text \<open>
  A world that holds the audit row of an earlier request sent with no
  \<open>x-webhook-delivery\<close> header and never marked processed.
\<close>

definition earlier_world :: world where
  "earlier_world =
     \<lparr>tables = (\<lambda>t. [])(''doclayer_webhook_events'' :=
        [audit_row example_env 0 (Some (JStr ''document.processing.started'')) ''unknown''
           started_payload]),
      inserted = 1, console = []\<rparr>"

text \<open>A world whose document table holds the completed row of job \<open>job_1\<close>.\<close>

definition completed_world :: world where
  "completed_world =
     \<lparr>tables = (\<lambda>t. [])(''doclayer_documents'' :=
        [defaults example_env 1 ''doclayer_documents'' ++
         completed_columns example_env (field (Some completed_payload) ''data'')
           completed_payload]),
      inserted = 2, console = []\<rparr>"

section \<open>Properties of the signature verifier\<close>

lemma replace_first_prefix: "p \<noteq> [] \<Longrightarrow> replace_first p r (p @ s) = r @ s"
  by (cases p) auto







lemma verifySignature_prefixed:
  "secret \<noteq> [] \<Longrightarrow>
   verifySignature hmac payload (''sha256='' @ h) secret = Inr (hexEncode (hmac secret payload) = h)"
proof -
  have "replace_first ''sha256='' [] (''sha256='' @ h) = h"
    using replace_first_prefix [of "''sha256=''" "[]" h] by simp
  then show "secret \<noteq> [] \<Longrightarrow> ?thesis"
    unfolding verifySignature_def Let_def by simp
qed


lemma verifySignature_unprefixed:
  "\<not> prefix ''sha256='' s \<Longrightarrow> verifySignature hmac payload s secret = Inr False"
  unfolding verifySignature_def by simp

lemma verifySignature_no_signature: "verifySignature hmac payload [] secret = Inr False"
  unfolding verifySignature_def by simp





section \<open>What each step writes\<close>

lemma tables_console_log [simp]: "tables (console_log s w) = tables w"
  by (simp add: console_log_def)

lemma tables_console_error [simp]: "tables (console_error s x w) = tables w"
  by (simp add: console_error_def)

lemma inserted_console_log [simp]: "inserted (console_log s w) = inserted w"
  by (simp add: console_log_def)

lemma inserted_console_error [simp]: "inserted (console_error s x w) = inserted w"
  by (simp add: console_error_def)

lemma tables_log_template [simp]: "tables (snd (log_template e ps w)) = tables w"
  by (simp add: log_template_def split: sum.splits)

lemma inserted_log_template [simp]: "inserted (snd (log_template e ps w)) = inserted w"
  by (simp add: log_template_def split: sum.splits)

lemma tables_logged [simp]: "tables (logged m r) = tables (snd r)"
  by (simp add: logged_def split: prod.splits)

lemma converts_simps [simp]:
  "converts None" "converts (Some JNull)" "converts (Some (JBool b))"
  "converts (Some (JNum n))" "converts (Some (JStr s))"
  by (simp_all add: converts_def)

lemma js_text_JStr [simp]: "js_text e (Some (JStr s)) = s"
  by (simp add: js_text_def)

lemma fst_log_template_Nil [simp]: "fst (log_template e [] w) = None"
  by (simp add: log_template_def)

lemma fst_log_template_Lit [simp]:
  "fst (log_template e (Lit s # ps) w) = fst (log_template e ps w)"
  by (simp add: log_template_def split: sum.splits)

lemma fst_log_template_Sub [simp]:
  "fst (log_template e (Sub v # ps) w) =
     (if converts v then fst (log_template e ps w) else Some conversion_error)"
  by (simp add: log_template_def js_string_def split: sum.splits)

lemma snd_log_template_thrown:
  "fst (log_template e ps w) \<noteq> None \<Longrightarrow> snd (log_template e ps w) = w"
  by (simp add: log_template_def split: sum.splits)

lemma tables_add_rows_other: "t' \<noteq> t \<Longrightarrow> tables (add_rows e t xs w) t' = tables w t'"
  by (induction xs arbitrary: w) simp_all

lemma tables_add_row_same:
  "tables (add_rows e t [x] w) t = tables w t @ [defaults e (inserted w) t ++ stored e t x]"
  by simp

lemma tables_db_insert_other:
  "t' \<noteq> t \<Longrightarrow> tables (snd (db_insert e t xs w)) t' = tables w t'"
  by (simp add: db_insert_def tables_add_rows_other split: option.splits)

lemma tables_db_upsert_other:
  "t' \<noteq> t \<Longrightarrow> tables (snd (db_upsert e t x c w)) t' = tables w t'"
  by (simp add: db_upsert_def split: option.splits)

lemma tables_db_update_other:
  "t' \<noteq> t \<Longrightarrow> tables (snd (db_update e t x c v w)) t' = tables w t'"
  by (simp add: db_update_def split: option.splits)

lemma length_db_update:
  "length (tables (snd (db_update e t x c v w)) t') = length (tables w t')"
  by (simp add: db_update_def split: option.splits)

lemma db_upsert_error:
  "db_error e t Upsert = Some err \<Longrightarrow> db_upsert e t x c w = (Some err, w)"
  by (simp add: db_upsert_def)

lemma db_insert_error:
  "db_error e t Insert = Some err \<Longrightarrow> db_insert e t xs w = (Some err, w)"
  by (simp add: db_insert_def)

lemma db_update_error:
  "db_error e t Update = Some err \<Longrightarrow> db_update e t x c v w = (Some err, w)"
  by (simp add: db_update_def)

lemma fst_db_upsert: "fst (db_upsert e t x c w) = db_error e t Upsert"
  by (simp add: db_upsert_def split: option.splits)

lemma fst_db_insert: "fst (db_insert e t xs w) = db_error e t Insert"
  by (simp add: db_insert_def split: option.splits)

lemma fst_db_update: "fst (db_update e t x c v w) = db_error e t Update"
  by (simp add: db_update_def split: option.splits)

lemma tables_storeExtractions:
  "t \<noteq> ''doclayer_extractions'' \<Longrightarrow>
   tables (snd (storeExtractions e jobId documentId apiKey w)) t = tables w t"
  unfolding storeExtractions_def Let_def
  by (auto simp add: tables_db_insert_other
      split: fetch_result.splits sum.splits option.splits prod.splits
      dest!: arg_cong [where f = "\<lambda>p. tables (snd p) t"])

lemma tables_fetchAndStoreExtractions:
  "t \<noteq> ''doclayer_extractions'' \<Longrightarrow>
   tables (fetchAndStoreExtractions e jobId documentId apiKey w) t = tables w t"
  using tables_storeExtractions [of t e jobId documentId apiKey w]
  by (cases "storeExtractions e jobId documentId apiKey w")
     (auto simp add: fetchAndStoreExtractions_def split: option.splits)

lemmas db_defs = db_insert_def db_upsert_def db_update_def

lemma tables_handleProcessingStarted:
  "t \<noteq> ''doclayer_documents'' \<Longrightarrow> tables (snd (handleProcessingStarted e d p w)) t = tables w t"
  by (simp add: handleProcessingStarted_def db_upsert_def split: option.splits)

lemma tables_handleProcessingCompleted:
  "t \<noteq> ''doclayer_documents'' \<Longrightarrow> t \<noteq> ''doclayer_extractions'' \<Longrightarrow>
   tables (snd (handleProcessingCompleted e d p w)) t = tables w t"
  by (auto simp add: handleProcessingCompleted_def db_upsert_def tables_fetchAndStoreExtractions
      split: option.splits prod.splits
      dest!: arg_cong [where f = "\<lambda>p. tables (snd p) t"])

lemma tables_handleProcessingFailed:
  "t \<noteq> ''doclayer_documents'' \<Longrightarrow> tables (snd (handleProcessingFailed e d p w)) t = tables w t"
  by (simp add: handleProcessingFailed_def db_upsert_def split: option.splits)

lemma tables_handleBatchStarted:
  "t \<noteq> ''doclayer_batches'' \<Longrightarrow> tables (snd (handleBatchStarted e d p w)) t = tables w t"
  by (simp add: handleBatchStarted_def tables_db_upsert_other)

lemma tables_handleBatchProgress:
  "t \<noteq> ''doclayer_batches'' \<Longrightarrow> tables (snd (handleBatchProgress e d p w)) t = tables w t"
  by (simp add: handleBatchProgress_def tables_db_update_other split: sum.splits)

lemma tables_handleBatchCompleted:
  "t \<noteq> ''doclayer_batches'' \<Longrightarrow> tables (snd (handleBatchCompleted e d p w)) t = tables w t"
  by (simp add: handleBatchCompleted_def tables_db_update_other split: sum.splits)

lemma tables_handleBatchFailed:
  "t \<noteq> ''doclayer_batches'' \<Longrightarrow> tables (snd (handleBatchFailed e d p w)) t = tables w t"
  by (simp add: handleBatchFailed_def tables_db_update_other split: sum.splits)

lemma tables_handleBillingCreditsLow:
  "t \<noteq> ''doclayer_billing_alerts'' \<Longrightarrow> tables (snd (handleBillingCreditsLow e d p w)) t = tables w t"
  by (simp add: handleBillingCreditsLow_def tables_db_insert_other)

lemma tables_handleBillingCreditsExhausted:
  "t \<noteq> ''doclayer_billing_alerts'' \<Longrightarrow> tables (snd (handleBillingCreditsExhausted e d p w)) t = tables w t"
  by (simp add: handleBillingCreditsExhausted_def tables_db_insert_other)

lemma tables_handleBillingUsageReport:
  "t \<noteq> ''doclayer_usage_reports'' \<Longrightarrow> tables (snd (handleBillingUsageReport e d p w)) t = tables w t"
  by (simp add: handleBillingUsageReport_def tables_db_insert_other)

lemma tables_handleWorkflowStarted:
  "t \<noteq> ''doclayer_workflows'' \<Longrightarrow> tables (snd (handleWorkflowStarted e d p w)) t = tables w t"
  by (simp add: handleWorkflowStarted_def tables_db_upsert_other)

lemma tables_handleWorkflowCompleted:
  "t \<noteq> ''doclayer_workflows'' \<Longrightarrow> tables (snd (handleWorkflowCompleted e d p w)) t = tables w t"
  by (simp add: handleWorkflowCompleted_def tables_db_update_other split: sum.splits)

lemma tables_handleWorkflowFailed:
  "t \<noteq> ''doclayer_workflows'' \<Longrightarrow> tables (snd (handleWorkflowFailed e d p w)) t = tables w t"
  by (simp add: handleWorkflowFailed_def tables_db_update_other split: sum.splits)

lemmas handler_frames =
  tables_handleProcessingStarted tables_handleProcessingCompleted tables_handleProcessingFailed
  tables_handleBatchStarted tables_handleBatchProgress tables_handleBatchCompleted
  tables_handleBatchFailed tables_handleBillingCreditsLow tables_handleBillingCreditsExhausted
  tables_handleBillingUsageReport tables_handleWorkflowStarted tables_handleWorkflowCompleted
  tables_handleWorkflowFailed

lemma tables_with_data:
  "(\<And>d. tables (snd (h d p w)) t = tables w t) \<Longrightarrow> tables (snd (with_data h p w)) t = tables w t"
  by (simp add: with_data_def)

lemma route_events:
  "tables (snd (route e et p w)) ''doclayer_webhook_events'' = tables w ''doclayer_webhook_events''"
  unfolding route_def
  by (simp add: tables_with_data handler_frames)

lemma serve_routed: "routed e req p et \<Longrightarrow> serve e req w = process e req et p w"
  by (simp add: serve_def routed_def signature_accepted_def)

lemma tables_log_event_other:
  "t \<noteq> ''doclayer_webhook_events'' \<Longrightarrow> tables (log_event e et d p w) t = tables w t"
  by (simp add: log_event_def tables_db_insert_other)

lemma tables_mark_processed_other:
  "t \<noteq> ''doclayer_webhook_events'' \<Longrightarrow> tables (mark_processed e d w) t = tables w t"
  by (simp add: mark_processed_def tables_db_update_other)

lemma events_log_event:
  "tables (log_event e et d p w) ''doclayer_webhook_events'' =
     (if db_error e ''doclayer_webhook_events'' Insert = None
      then tables w ''doclayer_webhook_events'' @ [audit_row e (inserted w) et d p]
      else tables w ''doclayer_webhook_events'')"
  by (simp add: log_event_def db_insert_def audit_row_def split: option.splits)

lemma events_mark_processed:
  "tables (mark_processed e d w) ''doclayer_webhook_events'' =
     (if db_error e ''doclayer_webhook_events'' Update = None
      then map (mark e d) (tables w ''doclayer_webhook_events'')
      else tables w ''doclayer_webhook_events'')"
  by (simp add: mark_processed_def db_update_def on_update_def mark_def split: option.splits)

lemma tables_internal_error [simp]: "tables (snd (internal_error err w)) = tables w"
  by (simp add: internal_error_def)

lemma status_internal_error [simp]: "status (fst (internal_error err w)) = 500"
  by (simp add: internal_error_def respond_def)

section \<open>Rejected signatures\<close>

lemma not_accepted:
  assumes "DOCLAYER_WEBHOOK_SECRET e = Some secret" and "secret \<noteq> []"
    and "headers req ''x-webhook-signature'' = None
       \<or> (\<exists>s. headers req ''x-webhook-signature'' = Some s \<and> \<not> prefix ''sha256='' s)
       \<or> (\<exists>h. headers req ''x-webhook-signature'' = Some (''sha256='' @ h)
              \<and> h \<noteq> hexEncode (hmac_sha256 e secret (req_text req)))"
  shows "signature_check e req = Inr False"
  using assms(3)
proof (elim disjE exE conjE)
  assume "headers req ''x-webhook-signature'' = None"
  then show ?thesis using assms(1,2)
    by (simp add: signature_check_def header_or_def verifySignature_no_signature)
next
  fix s
  assume "headers req ''x-webhook-signature'' = Some s" and "\<not> prefix ''sha256='' s"
  then show ?thesis using assms(1,2)
    by (simp add: signature_check_def header_or_def verifySignature_unprefixed
        verifySignature_no_signature)
next
  fix h
  assume hd: "headers req ''x-webhook-signature'' = Some (''sha256='' @ h)"
    and ne: "h \<noteq> hexEncode (hmac_sha256 e secret (req_text req))"
  have "header_or req ''x-webhook-signature'' [] = ''sha256='' @ h"
    using hd by (simp add: header_or_def)
  then show ?thesis using assms(1,2) ne
    by (auto simp add: signature_check_def verifySignature_prefixed simp del: append.simps)
qed

text \<open>
  C1, as stated, speaks of every request. The method check comes first: a request that
  is not a POST is answered 405, whatever its signature.
\<close>

theorem non_post_answered_405:
  "configured (DOCLAYER_WEBHOOK_SECRET secret_env)
   \<and> headers \<lparr>req_method = ''GET'', headers = Map.empty, req_text = completed_body\<rparr>
        ''x-webhook-signature'' = None
   \<and> status (fst (serve secret_env
        \<lparr>req_method = ''GET'', headers = Map.empty, req_text = completed_body\<rparr> empty_world)) = 405"
  by (simp add: serve_def respond_def secret_env_def example_env_def configured_def)

text \<open>
  C1, amended: for every POST request with a webhook secret configured (set and not
  empty), if the \<open>x-webhook-signature\<close> header is absent, does not start with
  \<open>sha256=\<close>, or its hex digest differs from the HMAC-SHA-256 of the raw body under
  the secret, the handler answers 401 and leaves every table as it was: no audit row
  and no entity mutation.
\<close>

theorem bad_signature_rejected:
  assumes "req_method req = ''POST''"
    and "DOCLAYER_WEBHOOK_SECRET e = Some secret" and "secret \<noteq> []"
    and "headers req ''x-webhook-signature'' = None
       \<or> (\<exists>s. headers req ''x-webhook-signature'' = Some s \<and> \<not> prefix ''sha256='' s)
       \<or> (\<exists>h. headers req ''x-webhook-signature'' = Some (''sha256='' @ h)
              \<and> h \<noteq> hexEncode (hmac_sha256 e secret (req_text req)))"
  shows "status (fst (serve e req w)) = 401
       \<and> tables (snd (serve e req w)) = tables w
       \<and> inserted (snd (serve e req w)) = inserted w"
proof -
  have "signature_check e req = Inr False" using assms(2-4) by (rule not_accepted)
  then show ?thesis using assms(1)
    by (simp add: serve_def respond_def console_error_def)
qed

theorem bad_signature_rejected_witness:
  "req_method (post [] completed_body) = ''POST''
   \<and> DOCLAYER_WEBHOOK_SECRET secret_env = Some ''whsec_1''
   \<and> headers (post [] completed_body) ''x-webhook-signature'' = None
   \<and> status (fst (serve secret_env (post [] completed_body) empty_world)) = 401
   \<and> tables (snd (serve secret_env (post [] completed_body) empty_world)) = tables empty_world"
  using bad_signature_rejected [of "post [] completed_body" secret_env "''whsec_1''" empty_world]
  by (simp add: post_def secret_env_def example_env_def)

section \<open>The audit table through a request\<close>

lemma route_unknown:
  assumes "\<forall>k \<in> set routing_keys. et \<noteq> Some (JStr k)"
  shows "route e et p w = log_template e [Lit ''Unhandled event type: '', Sub et] w"
  using assms unfolding route_def routing_keys_def by simp

lemma status_respond [simp]: "status (respond n x) = n"
  by (simp add: respond_def)

lemma marked_fields:
  "(r ++ stored e ''doclayer_webhook_events''
           [(''processed'', Some (JBool True)), (''processed_at'', Some (JStr n))]) c
     = (if c = ''processed'' then Some (JBool True)
        else if c = ''processed_at'' then Some (JStr n) else r c)"
  by (simp add: stored_def text_columns_def columns_def map_add_def)

lemma audit_row_fields:
  "audit_row e n et d p ''processed'' = Some (JBool False)"
  "audit_row e n et d p ''signature_valid'' = Some (JBool True)"
  "audit_row e n et d p ''event_id'' = Some (JStr d)"
  "audit_row e n et d p ''event_type'' = map_option (as_text e) et"
  by (cases et; simp add: audit_row_def defaults_def stored_def text_columns_def columns_def
        map_add_def as_text_def)+

lemma mark_fields:
  "mark e d r ''signature_valid'' = r ''signature_valid''"
  "mark e d r ''event_id'' = r ''event_id''"
  "mark e d r ''event_type'' = r ''event_type''"
  "r ''event_id'' = Some (JStr d) \<Longrightarrow> mark e d r ''processed'' = Some (JBool True)"
  "r ''event_id'' = Some (JStr d) \<Longrightarrow> mark e d r ''processed_at'' = Some (JStr (now_iso e))"
  "r ''event_id'' \<noteq> Some (JStr d) \<Longrightarrow> mark e d r = r"
  by (simp_all add: mark_def marked_fields)

lemma events_log_event':
  "events (log_event e et d p w) =
     (if db_error e ''doclayer_webhook_events'' Insert = None
      then events w @ [audit_row e (inserted w) et d p] else events w)"
  unfolding events_def by (rule events_log_event)

lemma events_mark_processed':
  "events (mark_processed e d w) =
     (if db_error e ''doclayer_webhook_events'' Update = None
      then map (mark e d) (events w) else events w)"
  unfolding events_def by (rule events_mark_processed)

lemma events_console [simp]:
  "events (console_log s w) = events w" "events (console_error s x w) = events w"
  by (simp_all add: events_def)

lemma events_log_template [simp]: "events (snd (log_template e ps w)) = events w"
  by (simp add: events_def)

lemma received_thrown:
  "\<not> converts et \<Longrightarrow> received e req et p w = (Some conversion_error, w)"
  by (simp add: received_def log_template_def js_string_def)

lemma received_converts:
  assumes "converts et"
  shows "\<exists>line. received e req et p w
           = (None, log_event e et (deliveryId req) p (console_log line w))"
proof -
  have "received e req et p w
          = (None, log_event e et (deliveryId req) p
              (console_log (''Processing webhook: '' @ js_text e et @ '' (delivery: ''
                 @ deliveryId req @ '')'') w))"
    using assms by (simp add: received_def log_template_def js_string_def)
  then show ?thesis by (rule exI)
qed

lemma fst_received:
  "fst (received e req et p w) = (if converts et then None else Some conversion_error)"
proof (cases "converts et")
  case True
  then obtain line where
    "received e req et p w = (None, log_event e et (deliveryId req) p (console_log line w))"
    using received_converts by blast
  with True show ?thesis by simp
next
  case False
  then show ?thesis by (simp add: received_thrown)
qed

lemma events_received:
  "events (snd (received e req et p w)) =
     (if converts et \<and> db_error e ''doclayer_webhook_events'' Insert = None
      then events w @ [audit_row e (inserted w) et (deliveryId req) p] else events w)"
proof (cases "converts et")
  case True
  then obtain line where
    "received e req et p w = (None, log_event e et (deliveryId req) p (console_log line w))"
    using received_converts by blast
  with True show ?thesis by (simp add: events_log_event')
next
  case False
  then show ?thesis by (simp add: received_thrown)
qed

lemma tables_received_other:
  "t \<noteq> ''doclayer_webhook_events'' \<Longrightarrow> tables (snd (received e req et p w)) t = tables w t"
proof (cases "converts et")
  case True
  then obtain line where
    "received e req et p w = (None, log_event e et (deliveryId req) p (console_log line w))"
    using received_converts by blast
  then show "t \<noteq> ''doclayer_webhook_events'' \<Longrightarrow> ?thesis"
    by (simp add: tables_log_event_other)
next
  case False
  then show ?thesis by (simp add: received_thrown)
qed

lemma route_events': "events (snd (route e et p w)) = events w"
  unfolding events_def by (rule route_events)

lemma events_internal_error [simp]: "events (snd (internal_error err w)) = events w"
  by (simp add: events_def)

lemma process_cases:
  "process e req et p w =
     (if \<not> converts et then internal_error conversion_error w
      else if fst (route e et p (snd (received e req et p w))) = None
      then (respond 200 [(''success'', Some (JBool True)), (''event_type'', et),
                         (''delivery_id'', Some (JStr (deliveryId req)))],
            mark_processed e (deliveryId req) (snd (route e et p (snd (received e req et p w)))))
      else internal_error (the (fst (route e et p (snd (received e req et p w)))))
             (snd (route e et p (snd (received e req et p w)))))"
proof (cases "converts et")
  case False
  then show ?thesis by (simp add: process_def received_thrown)
next
  case True
  then have "fst (received e req et p w) = None" by (simp add: fst_received)
  with True show ?thesis
    by (cases "received e req et p w") (simp add: process_def split: prod.splits option.splits)
qed

lemma status_process:
  "status (fst (process e req et p w)) =
     (if converts et \<and> fst (route e et p (snd (received e req et p w))) = None then 200 else 500)"
  by (simp add: process_cases)

lemma events_process:
  "events (snd (process e req et p w)) =
     (if status (fst (process e req et p w)) = 200
      then (if db_error e ''doclayer_webhook_events'' Update = None
            then map (mark e (deliveryId req)) (events (snd (received e req et p w)))
            else events (snd (received e req et p w)))
      else events (snd (received e req et p w)))"
  by (simp add: status_process)
     (simp add: process_cases events_mark_processed' route_events' received_thrown)

lemma tables_process_other:
  "t \<noteq> ''doclayer_webhook_events'' \<Longrightarrow> converts et \<Longrightarrow>
   tables (snd (process e req et p w)) t
     = tables (snd (route e et p (snd (received e req et p w)))) t"
  by (simp add: process_cases tables_mark_processed_other)

lemma tables_process_thrown:
  "\<not> converts et \<Longrightarrow> tables (snd (process e req et p w)) = tables w"
  by (simp add: process_cases)

lemmas handler_defs =
  handleProcessingStarted_def handleProcessingCompleted_def handleProcessingFailed_def
  handleBatchStarted_def handleBatchProgress_def handleBatchCompleted_def handleBatchFailed_def
  handleBillingCreditsLow_def handleBillingCreditsExhausted_def handleBillingUsageReport_def
  handleWorkflowStarted_def handleWorkflowCompleted_def handleWorkflowFailed_def
  fetchAndStoreExtractions_def storeExtractions_def build_extractions_def extraction_row_def
  started_object_def completed_object_def failed_object_def logged_def

lemmas serve_defs =
  serve_def process_def received_def deliveryId_def route_def with_data_def log_event_def
  mark_processed_def internal_error_def event_type_of_def signature_accepted_def
  signature_check_def header_or_def
  respond_def routed_def routing_keys_def configured_def nullish_def js_string_def js_text_def
  log_template_def conversion_error_def converts_def
  type_error_def db_insert_def db_upsert_def db_update_def db_select_single_id_def
  conflicts_def columns_def stored_def text_columns_def as_text_def defaults_def on_update_def
  console_log_def console_error_def
  events_def documents_def Let_def

lemmas example_defs =
  example_env_def secret_env_def missing_table_env_def post_def empty_world_def
  earlier_world_def audit_row_def mark_def
  example_parse_def example_String_of_def example_db_text_def
  completed_body_def completed_payload_def started_body_def started_payload_def
  failed_body_def failed_payload_def archived_body_def archived_payload_def
  batch_started_body_def batch_started_payload_def
  batch_completed_body_def batch_completed_payload_def
  odd_batch_body_def odd_batch_payload_def numbered_body_def numbered_payload_def

section \<open>Unrecognized event types\<close>

text \<open>
  C5, as stated, has the audit row of an unrecognized event stay flagged unprocessed.
  The update after the \<open>switch\<close> runs for the \<open>default\<close> branch as for every other:
  an event of type \<open>document.archived\<close> is answered 200 and its audit row ends with
  \<open>processed = true\<close>.
\<close>

theorem unknown_event_marked_processed:
  "''document.archived'' \<notin> set routing_keys
   \<and> status (fst (serve example_env (post [(''x-webhook-delivery'', ''dlv_1'')] archived_body)
        empty_world)) = 200
   \<and> map (\<lambda>r. r ''processed'')
        (events (snd (serve example_env (post [(''x-webhook-delivery'', ''dlv_1'')] archived_body)
           empty_world))) = [Some (JBool True)]"
  by (simp add: serve_defs example_defs)


text \<open>
  C5, amended: for every request that is taken up (a POST whose signature is accepted
  and whose body parses) with an event type that matches none of the routing keys and
  converts to text (every string does), the handler answers 200 and changes no table
  but the audit table; when the database accepts the audit insert and the final update,
  the audit table has one row more, the row of this event, and that row is flagged
  processed.
\<close>

theorem unknown_event_acknowledged:
  assumes "routed e req payload eventType"
    and "\<forall>k \<in> set routing_keys. eventType \<noteq> Some (JStr k)"
    and "converts eventType"
  shows "status (fst (serve e req w)) = 200
       \<and> (\<forall>t. t \<noteq> ''doclayer_webhook_events'' \<longrightarrow> tables (snd (serve e req w)) t = tables w t)
       \<and> (db_error e ''doclayer_webhook_events'' Insert = None
            \<and> db_error e ''doclayer_webhook_events'' Update = None \<longrightarrow>
          length (events (snd (serve e req w))) = Suc (length (events w))
          \<and> last (events (snd (serve e req w))) ''event_type'' = map_option (as_text e) eventType
          \<and> last (events (snd (serve e req w))) ''event_id'' = Some (JStr (deliveryId req))
          \<and> last (events (snd (serve e req w))) ''processed'' = Some (JBool True))"
proof -
  have s: "serve e req w = process e req eventType payload w"
    using assms(1) by (rule serve_routed)
  note u = route_unknown [OF assms(2)]
  have 1: "status (fst (serve e req w)) = 200"
    using assms(3) by (simp add: s status_process u)
  have 2: "\<forall>t. t \<noteq> ''doclayer_webhook_events'' \<longrightarrow> tables (snd (serve e req w)) t = tables w t"
    using assms(3) by (simp add: s tables_process_other u tables_received_other)
  have 3: "db_error e ''doclayer_webhook_events'' Insert = None
            \<and> db_error e ''doclayer_webhook_events'' Update = None \<longrightarrow>
          length (events (snd (serve e req w))) = Suc (length (events w))
          \<and> last (events (snd (serve e req w))) ''event_type'' = map_option (as_text e) eventType
          \<and> last (events (snd (serve e req w))) ''event_id'' = Some (JStr (deliveryId req))
          \<and> last (events (snd (serve e req w))) ''processed'' = Some (JBool True)"
    using 1 assms(3)
    by (simp add: s events_process events_received last_map mark_fields audit_row_fields)
  from 1 2 3 show ?thesis by blast
qed

theorem unknown_event_acknowledged_witness:
  "routed example_env (post [(''x-webhook-delivery'', ''dlv_1'')] archived_body)
     archived_payload (Some (JStr ''document.archived''))
   \<and> list_all (\<lambda>k. Some (JStr ''document.archived'') \<noteq> Some (JStr k)) routing_keys
   \<and> converts (Some (JStr ''document.archived''))
   \<and> status (fst (serve example_env (post [(''x-webhook-delivery'', ''dlv_1'')] archived_body)
        empty_world)) = 200
   \<and> documents (snd (serve example_env (post [(''x-webhook-delivery'', ''dlv_1'')] archived_body)
        empty_world)) = []
   \<and> last (events (snd (serve example_env (post [(''x-webhook-delivery'', ''dlv_1'')] archived_body)
        empty_world))) ''processed'' = Some (JBool True)"
proof -
  have r: "routed example_env (post [(''x-webhook-delivery'', ''dlv_1'')] archived_body)
     archived_payload (Some (JStr ''document.archived''))"
    by (simp add: serve_defs example_defs)
  have k: "\<forall>k \<in> set routing_keys. Some (JStr ''document.archived'') \<noteq> Some (JStr k)"
    by (simp add: routing_keys_def)
  have a: "db_error example_env ''doclayer_webhook_events'' Insert = None
         \<and> db_error example_env ''doclayer_webhook_events'' Update = None"
    by (simp add: example_env_def)
  show ?thesis
    using unknown_event_acknowledged [OF r k, of empty_world] r k a
    by (simp add: list_all_iff empty_world_def documents_def)
qed

text \<open>
  An event type that does not convert to text ends the request at line 193, before the
  audit insert: the answer is 500 and no table changes.
\<close>

lemma unconvertible_event_type_aborts:
  assumes "routed e req payload eventType" and "\<not> converts eventType"
  shows "status (fst (serve e req w)) = 500 \<and> tables (snd (serve e req w)) = tables w"
  using assms(2) by (simp add: serve_routed [OF assms(1)] process_cases)

section \<open>Failure of a document write\<close>

lemma route_keys:
  "route e (Some (JStr ''document.processing.started'')) = with_data (handleProcessingStarted e)"
  "route e (Some (JStr ''document.processing.completed'')) = with_data (handleProcessingCompleted e)"
  "route e (Some (JStr ''document.processing.failed'')) = with_data (handleProcessingFailed e)"
  "route e (Some (JStr ''batch.started'')) = with_data (handleBatchStarted e)"
  "route e (Some (JStr ''batch.progress'')) = with_data (handleBatchProgress e)"
  "route e (Some (JStr ''batch.completed'')) = with_data (handleBatchCompleted e)"
  "route e (Some (JStr ''batch.failed'')) = with_data (handleBatchFailed e)"
  "route e (Some (JStr ''billing.credits.low'')) = with_data (handleBillingCreditsLow e)"
  "route e (Some (JStr ''billing.credits.exhausted'')) = with_data (handleBillingCreditsExhausted e)"
  "route e (Some (JStr ''billing.usage.report'')) = with_data (handleBillingUsageReport e)"
  "route e (Some (JStr ''workflow.started'')) = with_data (handleWorkflowStarted e)"
  "route e (Some (JStr ''workflow.completed'')) = with_data (handleWorkflowCompleted e)"
  "route e (Some (JStr ''workflow.failed'')) = with_data (handleWorkflowFailed e)"
  by (simp_all add: route_def fun_eq_iff)

lemma with_data_present:
  "\<not> nullish (Some p) \<Longrightarrow> with_data h p w = h (field (Some p) ''data'') p w"
  by (simp add: with_data_def)

lemma started_failure:
  "\<not> nullish d \<Longrightarrow> db_error e ''doclayer_documents'' Upsert = Some err \<Longrightarrow>
   handleProcessingStarted e d p w = (Some err, console_error ''Failed to insert document:'' (Some err) w)"
  by (simp add: handleProcessingStarted_def db_upsert_error)

lemma completed_failure:
  "\<not> nullish d \<Longrightarrow> db_error e ''doclayer_documents'' Upsert = Some err \<Longrightarrow>
   handleProcessingCompleted e d p w = (Some err, console_error ''Failed to update document:'' (Some err) w)"
  by (simp add: handleProcessingCompleted_def db_upsert_error)

lemma failed_failure:
  "\<not> nullish d \<Longrightarrow> db_error e ''doclayer_documents'' Upsert = Some err \<Longrightarrow>
   handleProcessingFailed e d p w = (Some err, console_error ''Failed to update document:'' (Some err) w)"
  by (simp add: handleProcessingFailed_def db_upsert_error)

lemma document_handler_failure:
  assumes "k \<in> {''document.processing.started'', ''document.processing.completed'',
                 ''document.processing.failed''}"
    and "\<not> nullish (Some p)" and "\<not> nullish (field (Some p) ''data'')"
    and "db_error e ''doclayer_documents'' Upsert = Some err"
  shows "fst (route e (Some (JStr k)) p w) = Some err"
    and "tables (snd (route e (Some (JStr k)) p w)) = tables w"
proof -
  from assms(1) consider "k = ''document.processing.started''"
    | "k = ''document.processing.completed''" | "k = ''document.processing.failed''"
    by auto
  then have "fst (route e (Some (JStr k)) p w) = Some err
           \<and> tables (snd (route e (Some (JStr k)) p w)) = tables w"
  proof cases
    case 1
    show ?thesis unfolding 1 route_keys
      by (simp add: with_data_present [OF assms(2)] started_failure [OF assms(3,4)])
  next
    case 2
    show ?thesis unfolding 2 route_keys
      by (simp add: with_data_present [OF assms(2)] completed_failure [OF assms(3,4)])
  next
    case 3
    show ?thesis unfolding 3 route_keys
      by (simp add: with_data_present [OF assms(2)] failed_failure [OF assms(3,4)])
  qed
  then show "fst (route e (Some (JStr k)) p w) = Some err"
    and "tables (snd (route e (Some (JStr k)) p w)) = tables w"
    by simp_all
qed



text \<open>
  C6: when a request is routed to one of the three \<open>document.processing.*\<close> handlers
  and the upsert into \<open>doclayer_documents\<close> reports an error, the response has status
  500 and no table but the audit table differs from before; the audit row inserted
  before routing is the last row of the audit table, the rows before it are unchanged,
  and it still has \<open>processed = false\<close>. (When the audit insert itself was refused,
  the audit table is as before.)
\<close>

theorem document_write_failure_aborts:
  assumes "routed e req payload (Some (JStr k))"
    and "k \<in> {''document.processing.started'', ''document.processing.completed'',
                 ''document.processing.failed''}"
    and "\<not> nullish (Some payload)" and "\<not> nullish (field (Some payload) ''data'')"
    and "db_error e ''doclayer_documents'' Upsert = Some err"
  shows "status (fst (serve e req w)) = 500
       \<and> (\<forall>t. t \<noteq> ''doclayer_webhook_events'' \<longrightarrow> tables (snd (serve e req w)) t = tables w t)
       \<and> (db_error e ''doclayer_webhook_events'' Insert = None \<longrightarrow>
            events (snd (serve e req w)) = events w @ [last (events (snd (serve e req w)))]
            \<and> last (events (snd (serve e req w))) ''event_id'' = Some (JStr (deliveryId req))
            \<and> last (events (snd (serve e req w))) ''processed'' = Some (JBool False))
       \<and> (db_error e ''doclayer_webhook_events'' Insert \<noteq> None \<longrightarrow>
            events (snd (serve e req w)) = events w)"
proof -
  have s: "serve e req w = process e req (Some (JStr k)) payload w"
    using assms(1) by (rule serve_routed)
  note f = document_handler_failure [OF assms(2-5)]
  have 1: "status (fst (serve e req w)) = 500"
    by (simp add: s status_process f(1))
  have 2: "\<forall>t. t \<noteq> ''doclayer_webhook_events'' \<longrightarrow> tables (snd (serve e req w)) t = tables w t"
    by (simp add: s tables_process_other f(2) tables_received_other)
  have ev: "events (snd (serve e req w)) = events (snd (received e req (Some (JStr k)) payload w))"
    using 1 by (simp add: s events_process)
  have 3: "db_error e ''doclayer_webhook_events'' Insert = None \<longrightarrow>
            events (snd (serve e req w)) = events w @ [last (events (snd (serve e req w)))]
            \<and> last (events (snd (serve e req w))) ''event_id'' = Some (JStr (deliveryId req))
            \<and> last (events (snd (serve e req w))) ''processed'' = Some (JBool False)"
    by (simp add: ev events_received audit_row_fields)
  have 4: "db_error e ''doclayer_webhook_events'' Insert \<noteq> None \<longrightarrow>
            events (snd (serve e req w)) = events w"
    by (simp add: ev events_received)
  from 1 2 3 4 show ?thesis by blast
qed

theorem document_write_failure_aborts_witness:
  "routed (missing_table_env ''doclayer_documents'')
     (post [(''x-webhook-event'', ''document.processing.completed''),
            (''x-webhook-delivery'', ''dlv_2'')] completed_body)
     completed_payload (Some (JStr ''document.processing.completed''))
   \<and> db_error (missing_table_env ''doclayer_documents'') ''doclayer_documents'' Upsert
       = Some (Thrown (JObj [(''code'', JStr ''42P01'')]))
   \<and> status (fst (serve (missing_table_env ''doclayer_documents'')
       (post [(''x-webhook-event'', ''document.processing.completed''),
              (''x-webhook-delivery'', ''dlv_2'')] completed_body) empty_world)) = 500
   \<and> map (\<lambda>r. r ''processed'') (events (snd (serve (missing_table_env ''doclayer_documents'')
       (post [(''x-webhook-event'', ''document.processing.completed''),
              (''x-webhook-delivery'', ''dlv_2'')] completed_body) empty_world)))
       = [Some (JBool False)]
   \<and> documents (snd (serve (missing_table_env ''doclayer_documents'')
       (post [(''x-webhook-event'', ''document.processing.completed''),
              (''x-webhook-delivery'', ''dlv_2'')] completed_body) empty_world)) = []"
proof -
  let ?e = "missing_table_env ''doclayer_documents''"
  let ?r = "post [(''x-webhook-event'', ''document.processing.completed''),
                  (''x-webhook-delivery'', ''dlv_2'')] completed_body"
  have r: "routed ?e ?r completed_payload (Some (JStr ''document.processing.completed''))"
    by (simp add: serve_defs example_defs)
  have k: "''document.processing.completed'' \<in> {''document.processing.started'',
       ''document.processing.completed'', ''document.processing.failed''}"
    by simp
  have n: "\<not> nullish (Some completed_payload)"
      "\<not> nullish (field (Some completed_payload) ''data'')"
    by (simp_all add: nullish_def completed_payload_def)
  have d: "db_error ?e ''doclayer_documents'' Upsert = Some (Thrown (JObj [(''code'', JStr ''42P01'')]))"
    by (simp add: example_defs)
  have i: "db_error ?e ''doclayer_webhook_events'' Insert = None"
    by (simp add: example_defs)
  have w0: "events empty_world = []" "tables empty_world ''doclayer_documents'' = []"
    by (simp_all add: events_def empty_world_def)
  from document_write_failure_aborts [OF r k n d, of empty_world] i w0
  have st: "status (fst (serve ?e ?r empty_world)) = 500"
    and doc: "documents (snd (serve ?e ?r empty_world)) = []"
    and ev: "events (snd (serve ?e ?r empty_world)) = [last (events (snd (serve ?e ?r empty_world)))]"
    and pr: "last (events (snd (serve ?e ?r empty_world))) ''processed'' = Some (JBool False)"
    by (simp_all add: documents_def)
  have "map (\<lambda>r. r ''processed'') (events (snd (serve ?e ?r empty_world))) = [Some (JBool False)]"
    by (subst ev) (simp add: pr)
  with r d st doc show ?thesis by simp
qed

section \<open>The signature flag of audit rows\<close>

lemma serve_cases:
  obtains (rejected) "tables (snd (serve e req w)) = tables w" "status (fst (serve e req w)) \<noteq> 200"
  | (routed) p et where "routed e req p et"
proof (cases "\<exists>p et. routed e req p et")
  case True
  then show ?thesis using routed by blast
next
  case False
  then have "tables (snd (serve e req w)) = tables w \<and> status (fst (serve e req w)) \<noteq> 200"
    by (auto simp add: serve_def routed_def signature_accepted_def split: sum.splits)
  then show ?thesis using rejected by blast
qed

lemma events_serve_shape:
  "\<exists>new. (new = [] \<or> (\<exists>n et d p. new = [audit_row e n et d p]))
        \<and> (events (snd (serve e req w)) = events w @ new
            \<or> (\<exists>d. events (snd (serve e req w)) = map (mark e d) (events w @ new)))"
proof (cases rule: serve_cases [of e req w])
  case rejected
  then have "events (snd (serve e req w)) = events w @ []" by (simp add: events_def)
  then show ?thesis by blast
next
  case (routed p et)
  have s: "serve e req w = process e req et p w" using routed by (rule serve_routed)
  show ?thesis
  proof (cases "converts et \<and> db_error e ''doclayer_webhook_events'' Insert = None")
    case True
    then have "events (snd (serve e req w)) = events w @ [audit_row e (inserted w) et (deliveryId req) p]
       \<or> events (snd (serve e req w))
            = map (mark e (deliveryId req)) (events w @ [audit_row e (inserted w) et (deliveryId req) p])"
      by (simp add: s events_process events_received)
    then show ?thesis by blast
  next
    case False
    then have "events (snd (serve e req w)) = events w @ []
       \<or> events (snd (serve e req w)) = map (mark e (deliveryId req)) (events w @ [])"
      by (auto simp add: s events_process events_received)
    then show ?thesis by blast
  qed
qed


text \<open>
  C9: the rows a request adds to \<open>doclayer_webhook_events\<close> all have
  \<open>signature_valid = true\<close>, and the flag of no earlier row changes. A POST
  handled with no secret configured, whose signature was never checked, adds such a
  row all the same, when its body parses, its event type converts to text (line 193
  converts it before the insert) and the database accepts the insert; a request whose
  signature is refused adds none.
\<close>

theorem audit_rows_flagged_valid:
  "(\<forall>r \<in> set (drop (length (events w)) (events (snd (serve e req w)))).
       r ''signature_valid'' = Some (JBool True))
   \<and> map (\<lambda>r. r ''signature_valid'') (take (length (events w)) (events (snd (serve e req w))))
       = map (\<lambda>r. r ''signature_valid'') (events w)
   \<and> (\<not> configured (DOCLAYER_WEBHOOK_SECRET e) \<and> req_method req = ''POST''
       \<and> JSON_parse e (req_text req) = Inr payload \<and> event_type_of req payload = Inr eventType
       \<and> converts eventType \<and> db_error e ''doclayer_webhook_events'' Insert = None
       \<longrightarrow> length (events (snd (serve e req w))) = Suc (length (events w)))
   \<and> (\<not> signature_accepted e req \<longrightarrow> events (snd (serve e req w)) = events w)"
proof -
  from events_serve_shape [of e req w] obtain new d
    where new: "new = [] \<or> (\<exists>n et d p. new = [audit_row e n et d p])"
      and shape: "events (snd (serve e req w)) = events w @ new
            \<or> events (snd (serve e req w)) = map (mark e d) (events w @ new)"
    by blast
  have flagged: "\<forall>r \<in> set new. r ''signature_valid'' = Some (JBool True)"
    using new by (auto simp add: audit_row_fields)
  have 1: "\<forall>r \<in> set (drop (length (events w)) (events (snd (serve e req w)))).
       r ''signature_valid'' = Some (JBool True)"
    using shape flagged by (auto simp add: drop_map mark_fields)
  have 2: "map (\<lambda>r. r ''signature_valid'') (take (length (events w)) (events (snd (serve e req w))))
       = map (\<lambda>r. r ''signature_valid'') (events w)"
    using shape by (auto simp add: take_map mark_fields)
  have 3: "\<not> configured (DOCLAYER_WEBHOOK_SECRET e) \<and> req_method req = ''POST''
       \<and> JSON_parse e (req_text req) = Inr payload \<and> event_type_of req payload = Inr eventType
       \<and> converts eventType \<and> db_error e ''doclayer_webhook_events'' Insert = None
       \<longrightarrow> length (events (snd (serve e req w))) = Suc (length (events w))"
  proof (intro impI, elim conjE)
    assume c: "\<not> configured (DOCLAYER_WEBHOOK_SECRET e)" and m: "req_method req = ''POST''"
      and j: "JSON_parse e (req_text req) = Inr payload"
      and t: "event_type_of req payload = Inr eventType"
      and cv: "converts eventType"
      and i: "db_error e ''doclayer_webhook_events'' Insert = None"
    have "signature_accepted e req"
      using c
      by (simp add: signature_accepted_def signature_check_def configured_def
          split: option.splits)
    then have "routed e req payload eventType" using m j t by (simp add: routed_def)
    then have "serve e req w = process e req eventType payload w" by (rule serve_routed)
    then show "length (events (snd (serve e req w))) = Suc (length (events w))"
      using i cv by (simp add: events_process events_received)
  qed
  have 4: "\<not> signature_accepted e req \<longrightarrow> events (snd (serve e req w)) = events w"
    by (cases "signature_check e req")
       (auto simp add: serve_def events_def signature_accepted_def)
  from 1 2 3 4 show ?thesis by blast
qed

theorem audit_rows_flagged_valid_witness:
  "\<not> configured (DOCLAYER_WEBHOOK_SECRET example_env)
   \<and> events empty_world = []
   \<and> map (\<lambda>r. r ''signature_valid'')
       (events (snd (serve example_env
          (post [(''x-webhook-event'', ''document.processing.completed'')] completed_body)
          empty_world))) = [Some (JBool True)]"
  using audit_rows_flagged_valid [of empty_world example_env
          "post [(''x-webhook-event'', ''document.processing.completed'')] completed_body"
          completed_payload "Some (JStr ''document.processing.completed'')"]
  by (simp add: serve_defs handler_defs example_defs)

section \<open>Marking the event processed\<close>

text \<open>
  C10: when a request is answered 200 and the database accepts the final update, the
  update has matched by \<open>event_id\<close>: every row of the audit table that holds the
  request's delivery identifier is flagged processed with \<open>processed_at\<close> set, the
  rows of earlier requests among them; rows with another identifier are unchanged. A
  request with no \<open>x-webhook-delivery\<close> header has the identifier \<open>unknown\<close>.
\<close>

theorem mark_processed_by_delivery_id:
  assumes "routed e req payload eventType"
    and "status (fst (serve e req w)) = 200"
    and "db_error e ''doclayer_webhook_events'' Update = None"
  shows "(\<forall>r \<in> set (events (snd (serve e req w))).
            r ''event_id'' = Some (JStr (deliveryId req)) \<longrightarrow>
            r ''processed'' = Some (JBool True) \<and> r ''processed_at'' = Some (JStr (now_iso e)))
       \<and> (\<forall>i < length (events w).
            (events w ! i) ''event_id'' = Some (JStr (deliveryId req)) \<longrightarrow>
            (events (snd (serve e req w)) ! i) ''processed'' = Some (JBool True)
            \<and> (events (snd (serve e req w)) ! i) ''processed_at'' = Some (JStr (now_iso e)))
       \<and> (\<forall>i < length (events w).
            (events w ! i) ''event_id'' \<noteq> Some (JStr (deliveryId req)) \<longrightarrow>
            events (snd (serve e req w)) ! i = events w ! i)
       \<and> (headers req ''x-webhook-delivery'' = None \<longrightarrow> deliveryId req = ''unknown'')"
proof -
  let ?d = "deliveryId req"
  let ?rec = "events (snd (received e req eventType payload w))"
  have s: "serve e req w = process e req eventType payload w"
    using assms(1) by (rule serve_routed)
  have ev: "events (snd (serve e req w)) = map (mark e ?d) ?rec"
    using assms(2,3) by (simp add: s events_process)
  have old: "i < length (events w) \<Longrightarrow> ?rec ! i = events w ! i" for i
    by (simp add: events_received nth_append)
  have len: "length (events w) \<le> length ?rec"
    by (simp add: events_received)
  have 1: "\<forall>r \<in> set (events (snd (serve e req w))).
            r ''event_id'' = Some (JStr ?d) \<longrightarrow>
            r ''processed'' = Some (JBool True) \<and> r ''processed_at'' = Some (JStr (now_iso e))"
    unfolding ev by (auto simp add: mark_def marked_fields split: if_splits)
  have 2: "\<forall>i < length (events w).
            (events w ! i) ''event_id'' = Some (JStr ?d) \<longrightarrow>
            (events (snd (serve e req w)) ! i) ''processed'' = Some (JBool True)
            \<and> (events (snd (serve e req w)) ! i) ''processed_at'' = Some (JStr (now_iso e))"
    using len by (simp add: ev old mark_fields)
  have 3: "\<forall>i < length (events w).
            (events w ! i) ''event_id'' \<noteq> Some (JStr ?d) \<longrightarrow>
            events (snd (serve e req w)) ! i = events w ! i"
    using len by (simp add: ev old mark_fields)
  have 4: "headers req ''x-webhook-delivery'' = None \<longrightarrow> ?d = ''unknown''"
    by (simp add: deliveryId_def header_or_def)
  from 1 2 3 4 show ?thesis by blast
qed

theorem mark_processed_by_delivery_id_witness:
  "routed example_env (post [] archived_body) archived_payload (Some (JStr ''document.archived''))
   \<and> headers (post [] archived_body) ''x-webhook-delivery'' = None
   \<and> status (fst (serve example_env (post [] archived_body) earlier_world)) = 200
   \<and> map (\<lambda>r. r ''event_id'') (events earlier_world) = [Some (JStr ''unknown'')]
   \<and> map (\<lambda>r. r ''processed'') (events earlier_world) = [Some (JBool False)]
   \<and> map (\<lambda>r. r ''processed'') (events (snd (serve example_env (post [] archived_body) earlier_world)))
       = [Some (JBool True), Some (JBool True)]"
  using mark_processed_by_delivery_id [of example_env "post [] archived_body" archived_payload
          "Some (JStr ''document.archived'')" earlier_world]
  by (simp add: serve_defs handler_defs example_defs map_add_def)

section \<open>Failure of a best-effort write\<close>

lemma console_mark_processed [simp]: "console (mark_processed e d w) = console w"
  by (simp add: mark_processed_def db_update_def split: option.splits)

lemma console_console_log [simp]: "console (console_log s w) = console w @ [Log s]"
  by (simp add: console_log_def)

lemma console_console_error [simp]: "console (console_error s x w) = console w @ [Err s x]"
  by (simp add: console_error_def)

lemma handleBatchStarted_failure:
  assumes "\<not> nullish d" and "db_error e ''doclayer_batches'' Upsert = Some err"
    and "\<forall>f \<in> set (converted ''batch.started''). converts (field d f)"
  shows "fst (handleBatchStarted e d p w) = None"
    and "tables (snd (handleBatchStarted e d p w)) = tables w"
    and "Err ''Failed to insert batch:'' (Some err) \<in> set (console (snd (handleBatchStarted e d p w)))"
  using assms
  by (simp_all add: handleBatchStarted_def db_upsert_error logged_def log_template_def js_string_def
        converted_def)

lemma handleBatchProgress_failure:
  assumes "\<not> nullish d" and "db_error e ''doclayer_batches'' Update = Some err"
    and "\<forall>f \<in> set (converted ''batch.progress''). converts (field d f)"
  shows "fst (handleBatchProgress e d p w) = None"
    and "tables (snd (handleBatchProgress e d p w)) = tables w"
    and "Err ''Failed to update batch progress:'' (Some err) \<in> set (console (snd (handleBatchProgress e d p w)))"
  using assms
  by (simp_all add: handleBatchProgress_def db_update_error logged_def log_template_def js_string_def
        converted_def)

lemma handleBatchCompleted_failure:
  assumes "\<not> nullish d" and "db_error e ''doclayer_batches'' Update = Some err"
    and "\<forall>f \<in> set (converted ''batch.completed''). converts (field d f)"
  shows "fst (handleBatchCompleted e d p w) = None"
    and "tables (snd (handleBatchCompleted e d p w)) = tables w"
    and "Err ''Failed to update batch:'' (Some err) \<in> set (console (snd (handleBatchCompleted e d p w)))"
  using assms
  by (simp_all add: handleBatchCompleted_def db_update_error logged_def log_template_def js_string_def
        converted_def)

lemma handleBatchFailed_failure:
  assumes "\<not> nullish d" and "db_error e ''doclayer_batches'' Update = Some err"
    and "\<forall>f \<in> set (converted ''batch.failed''). converts (field d f)"
  shows "fst (handleBatchFailed e d p w) = None"
    and "tables (snd (handleBatchFailed e d p w)) = tables w"
    and "Err ''Failed to update batch:'' (Some err) \<in> set (console (snd (handleBatchFailed e d p w)))"
  using assms
  by (simp_all add: handleBatchFailed_def db_update_error logged_def log_template_def js_string_def
        converted_def)

lemma handleBillingCreditsLow_failure:
  assumes "\<not> nullish d" and "db_error e ''doclayer_billing_alerts'' Insert = Some err"
    and "\<forall>f \<in> set (converted ''billing.credits.low''). converts (field d f)"
  shows "fst (handleBillingCreditsLow e d p w) = None"
    and "tables (snd (handleBillingCreditsLow e d p w)) = tables w"
    and "Err ''Failed to insert billing alert:'' (Some err) \<in> set (console (snd (handleBillingCreditsLow e d p w)))"
  using assms
  by (simp_all add: handleBillingCreditsLow_def db_insert_error logged_def log_template_def js_string_def
        converted_def)

lemma handleBillingCreditsExhausted_failure:
  assumes "\<not> nullish d" and "db_error e ''doclayer_billing_alerts'' Insert = Some err"
    and "\<forall>f \<in> set (converted ''billing.credits.exhausted''). converts (field d f)"
  shows "fst (handleBillingCreditsExhausted e d p w) = None"
    and "tables (snd (handleBillingCreditsExhausted e d p w)) = tables w"
    and "Err ''Failed to insert billing alert:'' (Some err) \<in> set (console (snd (handleBillingCreditsExhausted e d p w)))"
  using assms
  by (simp_all add: handleBillingCreditsExhausted_def db_insert_error logged_def log_template_def js_string_def
        converted_def)

lemma handleBillingUsageReport_failure:
  assumes "\<not> nullish d" and "db_error e ''doclayer_usage_reports'' Insert = Some err"
    and "\<forall>f \<in> set (converted ''billing.usage.report''). converts (field d f)"
  shows "fst (handleBillingUsageReport e d p w) = None"
    and "tables (snd (handleBillingUsageReport e d p w)) = tables w"
    and "Err ''Failed to insert usage report:'' (Some err) \<in> set (console (snd (handleBillingUsageReport e d p w)))"
  using assms
  by (simp_all add: handleBillingUsageReport_def db_insert_error logged_def log_template_def js_string_def
        converted_def)

lemma handleWorkflowStarted_failure:
  assumes "\<not> nullish d" and "db_error e ''doclayer_workflows'' Upsert = Some err"
    and "\<forall>f \<in> set (converted ''workflow.started''). converts (field d f)"
  shows "fst (handleWorkflowStarted e d p w) = None"
    and "tables (snd (handleWorkflowStarted e d p w)) = tables w"
    and "Err ''Failed to insert workflow:'' (Some err) \<in> set (console (snd (handleWorkflowStarted e d p w)))"
  using assms
  by (simp_all add: handleWorkflowStarted_def db_upsert_error logged_def log_template_def js_string_def
        converted_def)

lemma handleWorkflowCompleted_failure:
  assumes "\<not> nullish d" and "db_error e ''doclayer_workflows'' Update = Some err"
    and "\<forall>f \<in> set (converted ''workflow.completed''). converts (field d f)"
  shows "fst (handleWorkflowCompleted e d p w) = None"
    and "tables (snd (handleWorkflowCompleted e d p w)) = tables w"
    and "Err ''Failed to update workflow:'' (Some err) \<in> set (console (snd (handleWorkflowCompleted e d p w)))"
  using assms
  by (simp_all add: handleWorkflowCompleted_def db_update_error logged_def log_template_def js_string_def
        converted_def)

lemma handleWorkflowFailed_failure:
  assumes "\<not> nullish d" and "db_error e ''doclayer_workflows'' Update = Some err"
    and "\<forall>f \<in> set (converted ''workflow.failed''). converts (field d f)"
  shows "fst (handleWorkflowFailed e d p w) = None"
    and "tables (snd (handleWorkflowFailed e d p w)) = tables w"
    and "Err ''Failed to update workflow:'' (Some err) \<in> set (console (snd (handleWorkflowFailed e d p w)))"
  using assms
  by (simp_all add: handleWorkflowFailed_def db_update_error logged_def log_template_def js_string_def
        converted_def)

lemma secondary_failure:
  assumes "secondary_write k = Some (t, op, msg)"
    and "\<not> nullish (Some p)" and "\<not> nullish (field (Some p) ''data'')"
    and "db_error e t op = Some err"
    and "\<forall>f \<in> set (converted k). converts (field (field (Some p) ''data'') f)"
  shows "fst (route e (Some (JStr k)) p w) = None
       \<and> tables (snd (route e (Some (JStr k)) p w)) = tables w
       \<and> Err msg (Some err) \<in> set (console (snd (route e (Some (JStr k)) p w)))"
proof -
  from assms(1) consider
(handleBatchStarted) "k = ''batch.started''" "t = ''doclayer_batches''" "op = Upsert" "msg = ''Failed to insert batch:''"
    | (handleBatchProgress) "k = ''batch.progress''" "t = ''doclayer_batches''" "op = Update" "msg = ''Failed to update batch progress:''"
    | (handleBatchCompleted) "k = ''batch.completed''" "t = ''doclayer_batches''" "op = Update" "msg = ''Failed to update batch:''"
    | (handleBatchFailed) "k = ''batch.failed''" "t = ''doclayer_batches''" "op = Update" "msg = ''Failed to update batch:''"
    | (handleBillingCreditsLow) "k = ''billing.credits.low''" "t = ''doclayer_billing_alerts''" "op = Insert" "msg = ''Failed to insert billing alert:''"
    | (handleBillingCreditsExhausted) "k = ''billing.credits.exhausted''" "t = ''doclayer_billing_alerts''" "op = Insert" "msg = ''Failed to insert billing alert:''"
    | (handleBillingUsageReport) "k = ''billing.usage.report''" "t = ''doclayer_usage_reports''" "op = Insert" "msg = ''Failed to insert usage report:''"
    | (handleWorkflowStarted) "k = ''workflow.started''" "t = ''doclayer_workflows''" "op = Upsert" "msg = ''Failed to insert workflow:''"
    | (handleWorkflowCompleted) "k = ''workflow.completed''" "t = ''doclayer_workflows''" "op = Update" "msg = ''Failed to update workflow:''"
    | (handleWorkflowFailed) "k = ''workflow.failed''" "t = ''doclayer_workflows''" "op = Update" "msg = ''Failed to update workflow:''"
    unfolding secondary_write_def by (auto split: if_splits)
  then show ?thesis
  proof cases
    case handleBatchStarted
    from assms(4) have f: "db_error e ''doclayer_batches'' Upsert = Some err" unfolding handleBatchStarted .
    from assms(5) have c: "\<forall>f \<in> set (converted ''batch.started''). converts (field (field (Some p) ''data'') f)"
      unfolding handleBatchStarted .
    show ?thesis unfolding handleBatchStarted route_keys with_data_present [OF assms(2)]
      using handleBatchStarted_failure [OF assms(3) f c] by simp
  next
    case handleBatchProgress
    from assms(4) have f: "db_error e ''doclayer_batches'' Update = Some err" unfolding handleBatchProgress .
    from assms(5) have c: "\<forall>f \<in> set (converted ''batch.progress''). converts (field (field (Some p) ''data'') f)"
      unfolding handleBatchProgress .
    show ?thesis unfolding handleBatchProgress route_keys with_data_present [OF assms(2)]
      using handleBatchProgress_failure [OF assms(3) f c] by simp
  next
    case handleBatchCompleted
    from assms(4) have f: "db_error e ''doclayer_batches'' Update = Some err" unfolding handleBatchCompleted .
    from assms(5) have c: "\<forall>f \<in> set (converted ''batch.completed''). converts (field (field (Some p) ''data'') f)"
      unfolding handleBatchCompleted .
    show ?thesis unfolding handleBatchCompleted route_keys with_data_present [OF assms(2)]
      using handleBatchCompleted_failure [OF assms(3) f c] by simp
  next
    case handleBatchFailed
    from assms(4) have f: "db_error e ''doclayer_batches'' Update = Some err" unfolding handleBatchFailed .
    from assms(5) have c: "\<forall>f \<in> set (converted ''batch.failed''). converts (field (field (Some p) ''data'') f)"
      unfolding handleBatchFailed .
    show ?thesis unfolding handleBatchFailed route_keys with_data_present [OF assms(2)]
      using handleBatchFailed_failure [OF assms(3) f c] by simp
  next
    case handleBillingCreditsLow
    from assms(4) have f: "db_error e ''doclayer_billing_alerts'' Insert = Some err" unfolding handleBillingCreditsLow .
    from assms(5) have c: "\<forall>f \<in> set (converted ''billing.credits.low''). converts (field (field (Some p) ''data'') f)"
      unfolding handleBillingCreditsLow .
    show ?thesis unfolding handleBillingCreditsLow route_keys with_data_present [OF assms(2)]
      using handleBillingCreditsLow_failure [OF assms(3) f c] by simp
  next
    case handleBillingCreditsExhausted
    from assms(4) have f: "db_error e ''doclayer_billing_alerts'' Insert = Some err" unfolding handleBillingCreditsExhausted .
    from assms(5) have c: "\<forall>f \<in> set (converted ''billing.credits.exhausted''). converts (field (field (Some p) ''data'') f)"
      unfolding handleBillingCreditsExhausted .
    show ?thesis unfolding handleBillingCreditsExhausted route_keys with_data_present [OF assms(2)]
      using handleBillingCreditsExhausted_failure [OF assms(3) f c] by simp
  next
    case handleBillingUsageReport
    from assms(4) have f: "db_error e ''doclayer_usage_reports'' Insert = Some err" unfolding handleBillingUsageReport .
    from assms(5) have c: "\<forall>f \<in> set (converted ''billing.usage.report''). converts (field (field (Some p) ''data'') f)"
      unfolding handleBillingUsageReport .
    show ?thesis unfolding handleBillingUsageReport route_keys with_data_present [OF assms(2)]
      using handleBillingUsageReport_failure [OF assms(3) f c] by simp
  next
    case handleWorkflowStarted
    from assms(4) have f: "db_error e ''doclayer_workflows'' Upsert = Some err" unfolding handleWorkflowStarted .
    from assms(5) have c: "\<forall>f \<in> set (converted ''workflow.started''). converts (field (field (Some p) ''data'') f)"
      unfolding handleWorkflowStarted .
    show ?thesis unfolding handleWorkflowStarted route_keys with_data_present [OF assms(2)]
      using handleWorkflowStarted_failure [OF assms(3) f c] by simp
  next
    case handleWorkflowCompleted
    from assms(4) have f: "db_error e ''doclayer_workflows'' Update = Some err" unfolding handleWorkflowCompleted .
    from assms(5) have c: "\<forall>f \<in> set (converted ''workflow.completed''). converts (field (field (Some p) ''data'') f)"
      unfolding handleWorkflowCompleted .
    show ?thesis unfolding handleWorkflowCompleted route_keys with_data_present [OF assms(2)]
      using handleWorkflowCompleted_failure [OF assms(3) f c] by simp
  next
    case handleWorkflowFailed
    from assms(4) have f: "db_error e ''doclayer_workflows'' Update = Some err" unfolding handleWorkflowFailed .
    from assms(5) have c: "\<forall>f \<in> set (converted ''workflow.failed''). converts (field (field (Some p) ''data'') f)"
      unfolding handleWorkflowFailed .
    show ?thesis unfolding handleWorkflowFailed route_keys with_data_present [OF assms(2)]
      using handleWorkflowFailed_failure [OF assms(3) f c] by simp
  qed
qed




text \<open>
  C7, as stated, speaks of every request routed to a best-effort handler. The template
  literal of the handler's last \<open>console.log\<close> is evaluated after the failed write and
  outside any \<open>try\<close>: a \<open>batch.started\<close> event whose \<open>batch_id\<close> is the object
  \<open>{"toString":1}\<close>, with the table \<open>doclayer_batches\<close> missing, is answered 500 and its
  audit row stays unprocessed.
\<close>

theorem unprintable_batch_id_aborts:
  "routed (missing_table_env ''doclayer_batches'')
     (post [(''x-webhook-delivery'', ''dlv_4'')] odd_batch_body)
     odd_batch_payload (Some (JStr ''batch.started''))
   \<and> secondary_write ''batch.started''
       = Some (''doclayer_batches'', Upsert, ''Failed to insert batch:'')
   \<and> db_error (missing_table_env ''doclayer_batches'') ''doclayer_batches'' Upsert
       = Some (Thrown (JObj [(''code'', JStr ''42P01'')]))
   \<and> status (fst (serve (missing_table_env ''doclayer_batches'')
        (post [(''x-webhook-delivery'', ''dlv_4'')] odd_batch_body) empty_world)) = 500
   \<and> map (\<lambda>r. r ''processed'') (events (snd (serve (missing_table_env ''doclayer_batches'')
        (post [(''x-webhook-delivery'', ''dlv_4'')] odd_batch_body) empty_world)))
       = [Some (JBool False)]"
  by (simp add: serve_defs handler_defs example_defs secondary_write_def map_add_def)

text \<open>
  C7, amended: when a request is routed to a batch, billing, usage or workflow handler,
  the members of \<open>data\<close> that the handler converts to text (in its filter and its log
  line) convert, as the strings and numbers of the declared event types do, and the
  handler's database call reports an error, the handler logs the error with
  \<open>console.error\<close> and throws nothing: the response has status 200, no table but
  the audit table differs from before, and (the database accepting the audit insert and
  the final update) the audit row of the request is flagged processed.
\<close>

theorem secondary_write_failure_tolerated:
  assumes "routed e req payload (Some (JStr k))"
    and "secondary_write k = Some (t, op, msg)"
    and "\<not> nullish (Some payload)" and "\<not> nullish (field (Some payload) ''data'')"
    and "db_error e t op = Some err"
    and "\<forall>f \<in> set (converted k). converts (field (field (Some payload) ''data'') f)"
  shows "status (fst (serve e req w)) = 200
       \<and> Err msg (Some err) \<in> set (console (snd (serve e req w)))
       \<and> (\<forall>t'. t' \<noteq> ''doclayer_webhook_events'' \<longrightarrow> tables (snd (serve e req w)) t' = tables w t')
       \<and> (db_error e ''doclayer_webhook_events'' Insert = None
            \<and> db_error e ''doclayer_webhook_events'' Update = None \<longrightarrow>
          length (events (snd (serve e req w))) = Suc (length (events w))
          \<and> last (events (snd (serve e req w))) ''event_id'' = Some (JStr (deliveryId req))
          \<and> last (events (snd (serve e req w))) ''processed'' = Some (JBool True))"
proof -
  have s: "serve e req w = process e req (Some (JStr k)) payload w"
    using assms(1) by (rule serve_routed)
  note f = secondary_failure [OF assms(2-6), of "snd (received e req (Some (JStr k)) payload w)"]
  have 1: "status (fst (serve e req w)) = 200"
    by (simp add: s status_process f)
  have 2: "Err msg (Some err) \<in> set (console (snd (serve e req w)))"
    using f by (simp add: s process_cases)
  have 3: "\<forall>t'. t' \<noteq> ''doclayer_webhook_events'' \<longrightarrow> tables (snd (serve e req w)) t' = tables w t'"
    by (simp add: s tables_process_other f tables_received_other)
  have 4: "db_error e ''doclayer_webhook_events'' Insert = None
            \<and> db_error e ''doclayer_webhook_events'' Update = None \<longrightarrow>
          length (events (snd (serve e req w))) = Suc (length (events w))
          \<and> last (events (snd (serve e req w))) ''event_id'' = Some (JStr (deliveryId req))
          \<and> last (events (snd (serve e req w))) ''processed'' = Some (JBool True)"
    using 1 by (simp add: s events_process events_received last_map mark_fields audit_row_fields)
  from 1 2 3 4 show ?thesis by blast
qed

theorem secondary_write_failure_tolerated_witness:
  "routed (missing_table_env ''doclayer_batches'')
     (post [(''x-webhook-delivery'', ''dlv_3'')] batch_started_body)
     batch_started_payload (Some (JStr ''batch.started''))
   \<and> secondary_write ''batch.started''
       = Some (''doclayer_batches'', Upsert, ''Failed to insert batch:'')
   \<and> db_error (missing_table_env ''doclayer_batches'') ''doclayer_batches'' Upsert
       = Some (Thrown (JObj [(''code'', JStr ''42P01'')]))
   \<and> list_all (\<lambda>f. converts (field (field (Some batch_started_payload) ''data'') f))
       (converted ''batch.started'')
   \<and> status (fst (serve (missing_table_env ''doclayer_batches'')
        (post [(''x-webhook-delivery'', ''dlv_3'')] batch_started_body) empty_world)) = 200
   \<and> console (snd (serve (missing_table_env ''doclayer_batches'')
        (post [(''x-webhook-delivery'', ''dlv_3'')] batch_started_body) empty_world))
       = [Log ''Processing webhook: batch.started (delivery: dlv_3)'',
          Err ''Failed to insert batch:'' (Some (Thrown (JObj [(''code'', JStr ''42P01'')]))),
          Log ''Batch started: batch_1 (2 documents)'']
   \<and> map (\<lambda>r. r ''processed'') (events (snd (serve (missing_table_env ''doclayer_batches'')
        (post [(''x-webhook-delivery'', ''dlv_3'')] batch_started_body) empty_world)))
       = [Some (JBool True)]"
  using secondary_write_failure_tolerated [of "missing_table_env ''doclayer_batches''"
          "post [(''x-webhook-delivery'', ''dlv_3'')] batch_started_body" batch_started_payload
          "''batch.started''" "''doclayer_batches''" Upsert "''Failed to insert batch:''"
          "Thrown (JObj [(''code'', JStr ''42P01'')])" empty_world]
  by (simp add: serve_defs handler_defs example_defs secondary_write_def converted_def
      map_add_def)

section \<open>The document table through a request\<close>

lemma tables_db_upsert_same:
  "db_error e t Upsert = None \<Longrightarrow>
   tables (snd (db_upsert e t x c w)) t = upsert_rows e (inserted w) t c (stored e t x) (tables w t)"
  by (simp add: db_upsert_def upsert_rows_def)

lemma columns_Nil [simp]: "columns [] c = None"
  by (simp add: columns_def)

lemma columns_Cons:
  "columns ((k, v) # kvs) c =
     (if c = k then (case v of Some a \<Rightarrow> Some a | None \<Rightarrow> columns kvs c) else columns kvs c)"
  by (cases v) (simp_all add: columns_def)

lemma upsert_rows_cases:
  assumes "r' \<in> set (upsert_rows e n t c r rows)"
  shows "r' \<in> set rows
       \<or> (\<exists>old \<in> set rows. conflicts c r old \<and> r' = on_update e t (old ++ r))
       \<or> r' = defaults e n t ++ r"
  using assms by (auto simp add: upsert_rows_def split: if_splits)

lemma length_upsert_rows:
  "length (upsert_rows e n t c r rows) = (if list_ex (conflicts c r) rows then length rows else Suc (length rows))"
  by (simp add: upsert_rows_def)

lemma on_update_other: "col \<noteq> ''updated_at'' \<Longrightarrow> on_update e t r col = r col"
  by (simp add: on_update_def)

lemma filter_upsert_same_key:
  assumes k: "r c = Some (JStr j)" and c: "c \<noteq> ''updated_at''"
  shows "filter (\<lambda>x. x c = Some (JStr j)) (upsert_rows e n t c r rows) =
     (if filter (\<lambda>x. x c = Some (JStr j)) rows = [] then [defaults e n t ++ r]
      else map (\<lambda>old. on_update e t (old ++ r)) (filter (\<lambda>x. x c = Some (JStr j)) rows))"
proof -
  let ?P = "\<lambda>x::row. x c = Some (JStr j)"
  have conf: "conflicts c r old \<longleftrightarrow> ?P old" for old
    using k by (simp add: conflicts_def)
  have ex: "list_ex (conflicts c r) rows \<longleftrightarrow> filter ?P rows \<noteq> []"
    by (simp add: conf list_ex_iff filter_empty_conv)
  have upd: "?P (on_update e t (old ++ r))" for old
    using k c by (simp add: on_update_other)
  have new: "?P (defaults e n t ++ r)"
    using k by simp
  show ?thesis
  proof (cases "filter ?P rows = []")
    case True
    then have "\<not> list_ex (conflicts c r) rows" using ex by simp
    then show ?thesis using True new
      by (simp add: upsert_rows_def)
  next
    case False
    then have e1: "list_ex (conflicts c r) rows" using ex by simp
    have "filter ?P (map (\<lambda>old. if ?P old then on_update e t (old ++ r) else old) rows)
        = map (\<lambda>old. on_update e t (old ++ r)) (filter ?P rows)"
      using upd by (induction rows) auto
    then show ?thesis using False e1
      by (simp add: upsert_rows_def conf)
  qed
qed

lemma filter_upsert_other_key:
  assumes k: "r c \<noteq> Some (JStr j)" and c: "c \<noteq> ''updated_at''" and d: "defaults e n t c = None"
  shows "filter (\<lambda>x. x c = Some (JStr j)) (upsert_rows e n t c r rows)
       = filter (\<lambda>x. x c = Some (JStr j)) rows"
proof -
  let ?P = "\<lambda>x::row. x c = Some (JStr j)"
  have keep: "conflicts c r old \<Longrightarrow> \<not> ?P old \<and> \<not> ?P (on_update e t (old ++ r))" for old
    using k c by (auto simp add: conflicts_def on_update_other map_add_def split: option.splits)
  have new: "\<not> ?P (defaults e n t ++ r)"
    using k d by (auto simp add: map_add_def split: option.splits)
  have "filter ?P (map (\<lambda>old. if conflicts c r old then on_update e t (old ++ r) else old) rows)
        = filter ?P rows"
    using keep by (induction rows) auto
  then show ?thesis using new by (simp add: upsert_rows_def)
qed

lemma document_columns:
  "started_columns e d p ''doclayer_job_id'' = map_option (as_text e) (field d ''job_id'')"
  "started_columns e d p ''status'' = Some (JStr ''processing'')"
  "completed_columns e d p ''doclayer_job_id'' = map_option (as_text e) (field d ''job_id'')"
  "completed_columns e d p ''status'' = Some (JStr ''completed'')"
  "failed_columns e d p ''doclayer_job_id'' = map_option (as_text e) (field d ''job_id'')"
  "failed_columns e d p ''status'' = Some (JStr ''failed'')"
  "failed_columns e d p ''error_message'' = map_option (as_text e) (field d ''error'')"
  by (simp_all add: started_columns_def completed_columns_def failed_columns_def
      started_object_def completed_object_def failed_object_def
      stored_def text_columns_def columns_Cons as_text_def
      split: option.splits)

lemma job_key_columns:
  "started_columns e (field (Some p) ''data'') p ''doclayer_job_id'' = job_key e p"
  "completed_columns e (field (Some p) ''data'') p ''doclayer_job_id'' = job_key e p"
  "failed_columns e (field (Some p) ''data'') p ''doclayer_job_id'' = job_key e p"
  by (simp_all add: document_columns job_key_def)

lemma as_text_JStr [simp]: "as_text e (JStr s) = JStr s"
  by (simp add: as_text_def)

lemma job_key_JStr:
  "field (field (Some p) ''data'') ''job_id'' = Some (JStr j) \<Longrightarrow> job_key e p = Some (JStr j)"
  by (simp add: job_key_def)

lemma documents_console [simp]:
  "documents (console_log s w) = documents w" "documents (console_error s x w) = documents w"
  by (simp_all add: documents_def)

lemma documents_log_template [simp]: "documents (snd (log_template e ps w)) = documents w"
  by (simp add: documents_def)

lemma documents_started:
  "documents (snd (handleProcessingStarted e d p w)) =
     (if nullish d \<or> db_error e ''doclayer_documents'' Upsert \<noteq> None then documents w
      else upsert_rows e (inserted w) ''doclayer_documents'' ''doclayer_job_id''
             (started_columns e d p) (documents w))"
  by (simp add: handleProcessingStarted_def documents_def started_columns_def
        db_upsert_def upsert_rows_def split: option.splits)

lemma documents_failed:
  "documents (snd (handleProcessingFailed e d p w)) =
     (if nullish d \<or> db_error e ''doclayer_documents'' Upsert \<noteq> None then documents w
      else upsert_rows e (inserted w) ''doclayer_documents'' ''doclayer_job_id''
             (failed_columns e d p) (documents w))"
  by (simp add: handleProcessingFailed_def documents_def failed_columns_def
        db_upsert_def upsert_rows_def split: option.splits)

lemma completed_after_upsert:
  "tables (snd (case log_template e ps w1 of
                  (Some error, w2) \<Rightarrow> (Some error, w2)
                | (None, w2) \<Rightarrow>
                    (case key of
                       None \<Rightarrow> (None, w2)
                     | Some apiKey \<Rightarrow>
                         if apiKey \<noteq> [] \<and> b
                         then (None, fetchAndStoreExtractions e jobId documentId apiKey w2)
                         else (None, w2)))) ''doclayer_documents''
     = tables w1 ''doclayer_documents''"
proof -
  obtain x w2 where l: "log_template e ps w1 = (x, w2)" by (cases "log_template e ps w1")
  then have "tables w2 = tables w1" using tables_log_template [of e ps w1] by simp
  then show ?thesis
    by (simp add: l tables_fetchAndStoreExtractions split: option.splits)
qed

lemma documents_completed:
  "documents (snd (handleProcessingCompleted e d p w)) =
     (if nullish d \<or> db_error e ''doclayer_documents'' Upsert \<noteq> None then documents w
      else upsert_rows e (inserted w) ''doclayer_documents'' ''doclayer_job_id''
             (completed_columns e d p) (documents w))"
proof (cases "nullish d \<or> db_error e ''doclayer_documents'' Upsert \<noteq> None")
  case True
  then show ?thesis
    by (auto simp add: handleProcessingCompleted_def documents_def db_upsert_def)
next
  case False
  then obtain w1 where u: "db_upsert e ''doclayer_documents'' (completed_object e d p)
                             ''doclayer_job_id'' w = (None, w1)"
    by (cases "db_upsert e ''doclayer_documents'' (completed_object e d p) ''doclayer_job_id'' w")
       (use fst_db_upsert [of e "''doclayer_documents''" "completed_object e d p"
              "''doclayer_job_id''" w] in auto)
  have "tables w1 ''doclayer_documents''
          = upsert_rows e (inserted w) ''doclayer_documents'' ''doclayer_job_id''
              (completed_columns e d p) (documents w)"
    using tables_db_upsert_same [of e "''doclayer_documents''" "completed_object e d p"
            "''doclayer_job_id''" w] False u
    by (simp add: completed_columns_def documents_def)
  then show ?thesis using False
    by (simp add: handleProcessingCompleted_def u documents_def completed_after_upsert)
qed

lemma fst_handleProcessingStarted:
  "\<not> nullish d \<Longrightarrow>
   fst (handleProcessingStarted e d p w) =
     (case db_error e ''doclayer_documents'' Upsert of
        Some err \<Rightarrow> Some err
      | None \<Rightarrow> if converts (field d ''job_id'') then None else Some conversion_error)"
  by (simp add: handleProcessingStarted_def db_upsert_def split: option.splits)

lemma fst_handleProcessingFailed:
  "\<not> nullish d \<Longrightarrow>
   fst (handleProcessingFailed e d p w) =
     (case db_error e ''doclayer_documents'' Upsert of
        Some err \<Rightarrow> Some err
      | None \<Rightarrow> if converts (field d ''job_id'') \<and> converts (field d ''error'') then None
                else Some conversion_error)"
  by (simp add: handleProcessingFailed_def db_upsert_def split: option.splits)

lemma fst_handleProcessingCompleted:
  "\<not> nullish d \<Longrightarrow>
   fst (handleProcessingCompleted e d p w) =
     (case db_error e ''doclayer_documents'' Upsert of
        Some err \<Rightarrow> Some err
      | None \<Rightarrow> if converts (field d ''job_id'') \<and> converts (field d ''insights_count'')
                then None else Some conversion_error)"
proof (cases "db_error e ''doclayer_documents'' Upsert")
  case (Some err)
  then show "\<not> nullish d \<Longrightarrow> ?thesis"
    by (simp add: handleProcessingCompleted_def db_upsert_error)
next
  case None
  then obtain w1 where u: "db_upsert e ''doclayer_documents'' (completed_object e d p)
                             ''doclayer_job_id'' w = (None, w1)"
    by (cases "db_upsert e ''doclayer_documents'' (completed_object e d p) ''doclayer_job_id'' w")
       (use fst_db_upsert [of e "''doclayer_documents''" "completed_object e d p"
              "''doclayer_job_id''" w] in auto)
  let ?ps = "[Lit ''Document processing completed: '', Sub (field d ''job_id''),
              Lit '' ('', Sub (field d ''insights_count''), Lit '' insights)'']"
  obtain x w2 where l: "log_template e ?ps w1 = (x, w2)" by (cases "log_template e ?ps w1")
  have "fst (log_template e ?ps w1)
          = (if converts (field d ''job_id'') \<and> converts (field d ''insights_count'')
             then None else Some conversion_error)"
    by simp
  then have x: "x = (if converts (field d ''job_id'') \<and> converts (field d ''insights_count'')
                     then None else Some conversion_error)"
    by (simp add: l)
  show "\<not> nullish d \<Longrightarrow> ?thesis"
    by (simp add: handleProcessingCompleted_def u l None x split: option.splits)
qed

lemma field_Some_not_nullish: "field v k = Some x \<Longrightarrow> \<not> nullish v"
  by (cases v) (auto simp add: nullish_def)

lemma documents_received [simp]: "documents (snd (received e req et p w)) = documents w"
  by (simp add: documents_def tables_received_other)

lemma documents_process:
  "documents (snd (process e req et p w)) =
     (if converts et then documents (snd (route e et p (snd (received e req et p w))))
      else documents w)"
  by (simp add: documents_def tables_process_other tables_process_thrown)

lemma payload_with_job:
  assumes "job_key e payload = Some (JStr j)"
  shows "\<not> nullish (field (Some payload) ''data'')" and "\<not> nullish (Some payload)"
proof -
  from assms obtain v where v: "field (field (Some payload) ''data'') ''job_id'' = Some v"
    by (auto simp add: job_key_def)
  then show nd: "\<not> nullish (field (Some payload) ''data'')"
    by (rule field_Some_not_nullish)
  then have "field (Some payload) ''data'' \<noteq> None" by (simp add: nullish_def)
  then obtain dv where "field (Some payload) ''data'' = Some dv" by blast
  then show "\<not> nullish (Some payload)" by (rule field_Some_not_nullish)
qed

lemma documents_serve_routed:
  "routed e req p et \<Longrightarrow>
   documents (snd (serve e req w)) =
     (if converts et then documents (snd (route e et p (snd (received e req et p w))))
      else documents w)"
  by (simp add: serve_routed documents_process)

lemma documents_with_data:
  "documents (snd (with_data h p w)) =
     (if nullish (Some p) then documents w else documents (snd (h (field (Some p) ''data'') p w)))"
  by (simp add: with_data_def)

lemma started_documents:
  assumes r: "routed e req payload (Some (JStr ''document.processing.started''))"
    and j: "job_key e payload = Some (JStr j)"
    and a: "db_error e ''doclayer_documents'' Upsert = None"
  shows "documents (snd (serve e req w)) =
      upsert_rows e (inserted (snd (received e req (Some (JStr ''document.processing.started''))
                                      payload w)))
        ''doclayer_documents'' ''doclayer_job_id''
        (started_columns e (field (Some payload) ''data'') payload) (documents w)"
  using payload_with_job [OF j] a
  by (simp add: documents_serve_routed [OF r] route_keys documents_with_data documents_started)

lemma failed_documents:
  assumes r: "routed e req payload (Some (JStr ''document.processing.failed''))"
    and j: "job_key e payload = Some (JStr j)"
    and a: "db_error e ''doclayer_documents'' Upsert = None"
  shows "documents (snd (serve e req w)) =
      upsert_rows e (inserted (snd (received e req (Some (JStr ''document.processing.failed''))
                                      payload w)))
        ''doclayer_documents'' ''doclayer_job_id''
        (failed_columns e (field (Some payload) ''data'') payload) (documents w)"
  using payload_with_job [OF j] a
  by (simp add: documents_serve_routed [OF r] route_keys documents_with_data documents_failed)

lemma completed_documents:
  assumes r: "routed e req payload (Some (JStr ''document.processing.completed''))"
    and j: "job_key e payload = Some (JStr j)"
    and a: "db_error e ''doclayer_documents'' Upsert = None"
  shows "documents (snd (serve e req w)) =
      upsert_rows e (inserted (snd (received e req (Some (JStr ''document.processing.completed''))
                                      payload w)))
        ''doclayer_documents'' ''doclayer_job_id''
        (completed_columns e (field (Some payload) ''data'') payload) (documents w)"
  using payload_with_job [OF j] a
  by (simp add: documents_serve_routed [OF r] route_keys documents_with_data documents_completed)

lemma upsert_step_rows:
  assumes docs: "documents w' = upsert_rows e n ''doclayer_documents'' ''doclayer_job_id'' cols (documents w)"
    and key: "cols ''doclayer_job_id'' = Some (JStr j)"
  shows "job_rows j w' =
          (if job_rows j w = [] then [defaults e n ''doclayer_documents'' ++ cols]
           else map (\<lambda>old. on_update e ''doclayer_documents'' (old ++ cols)) (job_rows j w))"
    and "length (documents w') =
          (if job_rows j w = [] then Suc (length (documents w)) else length (documents w))"
proof -
  show "job_rows j w' =
          (if job_rows j w = [] then [defaults e n ''doclayer_documents'' ++ cols]
           else map (\<lambda>old. on_update e ''doclayer_documents'' (old ++ cols)) (job_rows j w))"
    unfolding job_rows_def docs
    by (rule filter_upsert_same_key [of cols "''doclayer_job_id''" j, OF key]) simp
  have "list_ex (conflicts ''doclayer_job_id'' cols) (documents w) \<longleftrightarrow> job_rows j w \<noteq> []"
    by (simp add: job_rows_def conflicts_def key list_ex_iff filter_empty_conv)
  then show "length (documents w') =
          (if job_rows j w = [] then Suc (length (documents w)) else length (documents w))"
    by (simp add: docs length_upsert_rows)
qed

lemma completed_status:
  assumes r: "routed e req payload (Some (JStr ''document.processing.completed''))"
    and j: "field (field (Some payload) ''data'') ''job_id'' = Some (JStr j)"
    and a: "db_error e ''doclayer_documents'' Upsert = None"
  shows "status (fst (serve e req w)) =
           (if converts (field (field (Some payload) ''data'') ''insights_count'')
            then 200 else 500)"
proof -
  note n = payload_with_job [OF job_key_JStr [OF j, of e]]
  show ?thesis
    using a j
    by (simp add: serve_routed [OF r] status_process route_keys with_data_present [OF n(2)]
          fst_handleProcessingCompleted [OF n(1)] conversion_error_def)
qed

lemma completed_step:
  assumes r: "routed e req payload (Some (JStr ''document.processing.completed''))"
    and j: "job_key e payload = Some (JStr j)"
    and a: "db_error e ''doclayer_documents'' Upsert = None"
  shows "job_rows j (snd (serve e req w)) =
          (if job_rows j w = []
           then [defaults e (inserted (snd (received e req
                    (Some (JStr ''document.processing.completed'')) payload w)))
                   ''doclayer_documents''
                 ++ completed_columns e (field (Some payload) ''data'') payload]
           else map (\<lambda>old. on_update e ''doclayer_documents''
                       (old ++ completed_columns e (field (Some payload) ''data'') payload))
                  (job_rows j w))"
    and "length (documents (snd (serve e req w))) =
          (if job_rows j w = [] then Suc (length (documents w)) else length (documents w))"
proof -
  have key: "completed_columns e (field (Some payload) ''data'') payload ''doclayer_job_id''
               = Some (JStr j)"
    by (simp add: job_key_columns j)
  note rows = upsert_step_rows [OF completed_documents [OF r j a, of w] key]
  show "job_rows j (snd (serve e req w)) =
          (if job_rows j w = []
           then [defaults e (inserted (snd (received e req
                    (Some (JStr ''document.processing.completed'')) payload w)))
                   ''doclayer_documents''
                 ++ completed_columns e (field (Some payload) ''data'') payload]
           else map (\<lambda>old. on_update e ''doclayer_documents''
                       (old ++ completed_columns e (field (Some payload) ''data'') payload))
                  (job_rows j w))"
    by (rule rows(1))
  show "length (documents (snd (serve e req w))) =
          (if job_rows j w = [] then Suc (length (documents w)) else length (documents w))"
    by (rule rows(2))
qed

section \<open>Idempotent completion\<close>

text \<open>
  C2: the same \<open>document.processing.completed\<close> request delivered twice for job
  identifier \<open>j\<close>, the database accepting the upsert both times and holding at most
  one row for \<open>j\<close> before (the column is \<open>UNIQUE\<close>): afterwards there is exactly one
  row for \<open>j\<close> and its status is \<open>completed\<close>, and the second delivery leaves the
  number of document rows as the first left it. Both deliveries are answered 200 when
  \<open>insights_count\<close> converts to text for the handler's log line, as every value that an
  \<open>INTEGER\<close> column accepts does; were it a value that does not convert, the log line
  would throw after the upsert and the answer be 500, the row being written all the same.
\<close>

theorem completed_twice_one_row:
  assumes "routed e1 req payload (Some (JStr ''document.processing.completed''))"
    and "routed e2 req payload (Some (JStr ''document.processing.completed''))"
    and "field (field (Some payload) ''data'') ''job_id'' = Some (JStr j)"
    and "db_error e1 ''doclayer_documents'' Upsert = None"
    and "db_error e2 ''doclayer_documents'' Upsert = None"
    and "length (job_rows j w) \<le> 1"
  shows "status (fst (serve e1 req w)) =
           (if converts (field (field (Some payload) ''data'') ''insights_count'')
            then 200 else 500)
       \<and> status (fst (serve e2 req (snd (serve e1 req w)))) =
           (if converts (field (field (Some payload) ''data'') ''insights_count'')
            then 200 else 500)
       \<and> length (job_rows j (snd (serve e2 req (snd (serve e1 req w))))) = 1
       \<and> (\<forall>r \<in> set (job_rows j (snd (serve e2 req (snd (serve e1 req w))))).
             r ''status'' = Some (JStr ''completed''))
       \<and> length (documents (snd (serve e2 req (snd (serve e1 req w)))))
           = length (documents (snd (serve e1 req w)))"
proof -
  let ?w1 = "snd (serve e1 req w)"
  let ?w2 = "snd (serve e2 req ?w1)"
  note first = completed_step [OF assms(1) job_key_JStr [OF assms(3)] assms(4), of w]
  note second = completed_step [OF assms(2) job_key_JStr [OF assms(3)] assms(5), of ?w1]
  note 1 = completed_status [OF assms(1,3,4), of w]
  note 2 = completed_status [OF assms(2,3,5), of ?w1]
  have one: "length (job_rows j ?w1) = 1"
    using assms(6) by (simp add: first(1)) (cases "job_rows j w"; simp)
  then have ne: "job_rows j ?w1 \<noteq> []" by auto
  have 3: "length (job_rows j ?w2) = 1"
    using one ne by (simp add: second(1))
  have 4: "\<forall>r \<in> set (job_rows j ?w2). r ''status'' = Some (JStr ''completed'')"
    using ne by (auto simp add: second(1) on_update_other document_columns)
  have 5: "length (documents ?w2) = length (documents ?w1)"
    using ne by (simp add: second(2))
  from 1 2 3 4 5 show ?thesis by (intro conjI)
qed

section \<open>The example requests\<close>

lemma example_routed:
  "routed example_env (post [(''x-webhook-event'', ''document.processing.completed'')] completed_body)
     completed_payload (Some (JStr ''document.processing.completed''))"
  "routed example_env (post [] started_body) started_payload
     (Some (JStr ''document.processing.started''))"
  "routed example_env (post [] failed_body) failed_payload
     (Some (JStr ''document.processing.failed''))"
  "routed example_env (post [] archived_body) archived_payload (Some (JStr ''document.archived''))"
  "routed example_env (post [] numbered_body) numbered_payload
     (Some (JStr ''document.processing.started''))"
  by (simp_all add: routed_def post_def example_env_def signature_accepted_def
        signature_check_def example_parse_def
        event_type_of_def nullish_def completed_body_def started_body_def failed_body_def
        archived_body_def started_payload_def failed_payload_def archived_payload_def
        batch_started_body_def batch_completed_body_def odd_batch_body_def numbered_body_def
        numbered_payload_def)

lemma example_job_ids:
  "field (field (Some completed_payload) ''data'') ''job_id'' = Some (JStr ''job_1'')"
  "field (field (Some started_payload) ''data'') ''job_id'' = Some (JStr ''job_1'')"
  "field (field (Some failed_payload) ''data'') ''job_id'' = Some (JStr ''job_1'')"
  "field (field (Some failed_payload) ''data'') ''error'' = Some (JStr ''unreadable'')"
  by (simp_all add: completed_payload_def started_payload_def failed_payload_def)

lemma example_job_keys:
  "job_key example_env completed_payload = Some (JStr ''job_1'')"
  "job_key example_env started_payload = Some (JStr ''job_1'')"
  "job_key example_env failed_payload = Some (JStr ''job_1'')"
  "job_key example_env numbered_payload = Some (JStr ''7'')"
  "job_key example_env archived_payload = Some (JStr ''job_1'')"
  by (simp_all add: job_key_def completed_payload_def started_payload_def failed_payload_def
        numbered_payload_def archived_payload_def as_text_def example_env_def
        example_db_text_def example_String_of_def)

lemma example_accepts: "db_error example_env t op = None"
  by (simp add: example_env_def)

lemma documents_empty_world: "documents empty_world = []"
  by (simp add: documents_def empty_world_def)

lemma row_fields:
  "(m ++ completed_columns e d p) ''status'' = Some (JStr ''completed'')"
  "(m ++ started_columns e d p) ''status'' = Some (JStr ''processing'')"
  "(m ++ failed_columns e d p) ''status'' = Some (JStr ''failed'')"
  "field d ''job_id'' = Some v \<Longrightarrow>
     (m ++ completed_columns e d p) ''doclayer_job_id'' = Some (as_text e v)"
  "field d ''job_id'' = Some v \<Longrightarrow>
     (m ++ started_columns e d p) ''doclayer_job_id'' = Some (as_text e v)"
  "field d ''job_id'' = Some v \<Longrightarrow>
     (m ++ failed_columns e d p) ''doclayer_job_id'' = Some (as_text e v)"
  by (simp_all add: map_add_def document_columns)

lemma example_starts:
  "starts_job example_env (post [] started_body) ''job_1''"
  "\<not> starts_job example_env (post [] failed_body) ''job_1''"
  "\<not> starts_job example_env (post [] archived_body) ''job_1''"
  "starts_job example_env (post [] numbered_body) ''7''"
proof -
  have p: "JSON_parse example_env (req_text (post [] started_body)) = Inr started_payload"
    "JSON_parse example_env (req_text (post [] failed_body)) = Inr failed_payload"
    "JSON_parse example_env (req_text (post [] archived_body)) = Inr archived_payload"
    "JSON_parse example_env (req_text (post [] numbered_body)) = Inr numbered_payload"
    using example_routed by (simp_all add: routed_def)
  show "starts_job example_env (post [] started_body) ''job_1''"
    by (simp add: starts_job_def p example_routed example_job_keys)
  show "starts_job example_env (post [] numbered_body) ''7''"
    by (simp add: starts_job_def p example_routed example_job_keys)
  have "\<not> routed example_env (post [] failed_body) failed_payload
          (Some (JStr ''document.processing.started''))"
    using example_routed(3) by (simp add: routed_def)
  then show "\<not> starts_job example_env (post [] failed_body) ''job_1''"
    by (simp add: starts_job_def p)
  have "\<not> routed example_env (post [] archived_body) archived_payload
          (Some (JStr ''document.processing.started''))"
    using example_routed(4) by (simp add: routed_def)
  then show "\<not> starts_job example_env (post [] archived_body) ''job_1''"
    by (simp add: starts_job_def p)
qed

lemma completed_world_rows:
  "job_rows ''job_1'' completed_world \<noteq> []"
  "\<forall>r \<in> set (job_rows ''job_1'' completed_world). terminal r"
  by (simp_all add: job_rows_def documents_def completed_world_def terminal_def row_fields
        example_job_ids)

lemma example_batch_routed:
  "routed example_env (post [] batch_completed_body) batch_completed_payload
     (Some (JStr ''batch.completed''))"
  by (simp add: routed_def post_def example_env_def signature_accepted_def signature_check_def
        example_parse_def
        event_type_of_def nullish_def completed_body_def started_body_def failed_body_def
        archived_body_def batch_started_body_def batch_completed_body_def
        batch_completed_payload_def)

lemma example_insights_count:
  "converts (field (field (Some completed_payload) ''data'') ''insights_count'')"
  by (simp add: completed_payload_def)

theorem completed_twice_one_row_witness:
  "routed example_env (post [(''x-webhook-event'', ''document.processing.completed'')] completed_body)
     completed_payload (Some (JStr ''document.processing.completed''))
   \<and> field (field (Some completed_payload) ''data'') ''job_id'' = Some (JStr ''job_1'')
   \<and> db_error example_env ''doclayer_documents'' Upsert = None
   \<and> length (job_rows ''job_1'' empty_world) \<le> 1
   \<and> converts (field (field (Some completed_payload) ''data'') ''insights_count'')
   \<and> status (fst (serve example_env
        (post [(''x-webhook-event'', ''document.processing.completed'')] completed_body)
        empty_world)) = 200
   \<and> length (job_rows ''job_1'' (snd (serve example_env
           (post [(''x-webhook-event'', ''document.processing.completed'')] completed_body)
           (snd (serve example_env
              (post [(''x-webhook-event'', ''document.processing.completed'')] completed_body)
              empty_world))))) = 1
   \<and> list_all (\<lambda>r. r ''status'' = Some (JStr ''completed''))
        (job_rows ''job_1'' (snd (serve example_env
           (post [(''x-webhook-event'', ''document.processing.completed'')] completed_body)
           (snd (serve example_env
              (post [(''x-webhook-event'', ''document.processing.completed'')] completed_body)
              empty_world)))))"
proof -
  have z: "length (job_rows ''job_1'' empty_world) \<le> 1"
    by (simp add: job_rows_def documents_empty_world)
  note T = completed_twice_one_row [OF example_routed(1) example_routed(1) example_job_ids(1)
             example_accepts example_accepts z]
  have s: "status (fst (serve example_env
        (post [(''x-webhook-event'', ''document.processing.completed'')] completed_body)
        empty_world)) = 200"
    using conjunct1 [OF T] by (simp only: example_insights_count if_True)
  have l: "length (job_rows ''job_1'' (snd (serve example_env
           (post [(''x-webhook-event'', ''document.processing.completed'')] completed_body)
           (snd (serve example_env
              (post [(''x-webhook-event'', ''document.processing.completed'')] completed_body)
              empty_world))))) = 1"
    by (rule conjunct1 [OF conjunct2 [OF conjunct2 [OF T]]])
  have "\<forall>r \<in> set (job_rows ''job_1'' (snd (serve example_env
           (post [(''x-webhook-event'', ''document.processing.completed'')] completed_body)
           (snd (serve example_env
              (post [(''x-webhook-event'', ''document.processing.completed'')] completed_body)
              empty_world))))). r ''status'' = Some (JStr ''completed'')"
    by (rule conjunct1 [OF conjunct2 [OF conjunct2 [OF conjunct2 [OF T]]]])
  then have c: "list_all (\<lambda>r. r ''status'' = Some (JStr ''completed''))
        (job_rows ''job_1'' (snd (serve example_env
           (post [(''x-webhook-event'', ''document.processing.completed'')] completed_body)
           (snd (serve example_env
              (post [(''x-webhook-event'', ''document.processing.completed'')] completed_body)
              empty_world)))))"
    by (simp only: list_all_iff)
  show ?thesis
    by (intro conjI example_routed(1) example_job_ids(1) example_accepts z
          example_insights_count s l c)
qed

section \<open>Which events create rows\<close>

lemma length_update_handlers:
  "length (tables (snd (handleBatchProgress e d p w)) t) = length (tables w t)"
  "length (tables (snd (handleBatchCompleted e d p w)) t) = length (tables w t)"
  "length (tables (snd (handleBatchFailed e d p w)) t) = length (tables w t)"
  "length (tables (snd (handleWorkflowCompleted e d p w)) t) = length (tables w t)"
  "length (tables (snd (handleWorkflowFailed e d p w)) t) = length (tables w t)"
  by (simp_all add: handleBatchProgress_def handleBatchCompleted_def handleBatchFailed_def
        handleWorkflowCompleted_def handleWorkflowFailed_def length_db_update
        split: sum.splits)

lemma length_with_data:
  "(\<And>d. length (tables (snd (h d p w)) t) = length (tables w t)) \<Longrightarrow>
   length (tables (snd (with_data h p w)) t) = length (tables w t)"
  by (simp add: with_data_def)

lemma route_length_batches:
  "et \<noteq> Some (JStr ''batch.started'') \<Longrightarrow>
   length (tables (snd (route e et p w)) ''doclayer_batches'') = length (tables w ''doclayer_batches'')"
  unfolding route_def
  by (simp add: length_with_data tables_with_data length_update_handlers handler_frames)

lemma route_length_workflows:
  "et \<noteq> Some (JStr ''workflow.started'') \<Longrightarrow>
   length (tables (snd (route e et p w)) ''doclayer_workflows'') = length (tables w ''doclayer_workflows'')"
  unfolding route_def
  by (simp add: length_with_data tables_with_data length_update_handlers handler_frames)

lemma routed_unique:
  "routed e req p et \<Longrightarrow> routed e req p' et' \<Longrightarrow> p' = p \<and> et' = et"
  by (simp add: routed_def)

lemma serve_length_unless:
  assumes "t \<noteq> ''doclayer_webhook_events''"
    and "\<And>p et w'. routed e req p et \<Longrightarrow> et \<noteq> Some (JStr k) \<Longrightarrow>
           length (tables (snd (route e et p w')) t) = length (tables w' t)"
    and "\<forall>p. \<not> routed e req p (Some (JStr k))"
  shows "length (tables (snd (serve e req w)) t) = length (tables w t)"
proof (cases rule: serve_cases [of e req w])
  case rejected
  then show ?thesis by simp
next
  case (routed p et)
  then have ne: "et \<noteq> Some (JStr k)" using assms(3) by auto
  have s: "serve e req w = process e req et p w" using routed by (rule serve_routed)
  show ?thesis
  proof (cases "converts et")
    case True
    then show ?thesis
      using assms(2) [OF routed ne, of "snd (received e req et p w)"] assms(1)
      by (simp add: s tables_process_other tables_received_other)
  next
    case False
    then show ?thesis by (simp add: s tables_process_thrown)
  qed
qed

lemma documents_route_other:
  assumes "et \<noteq> Some (JStr ''document.processing.started'')"
    and "et \<noteq> Some (JStr ''document.processing.completed'')"
    and "et \<noteq> Some (JStr ''document.processing.failed'')"
  shows "documents (snd (route e et p w)) = documents w"
  using assms unfolding route_def documents_def
  by (simp add: tables_with_data handler_frames)

lemma documents_serve_rejected:
  "tables (snd (serve e req w)) = tables w \<Longrightarrow> documents (snd (serve e req w)) = documents w"
  by (simp add: documents_def)

lemma documents_serve_other:
  assumes "\<forall>p. \<not> routed e req p (Some (JStr ''document.processing.started''))
             \<and> \<not> routed e req p (Some (JStr ''document.processing.completed''))
             \<and> \<not> routed e req p (Some (JStr ''document.processing.failed''))"
  shows "documents (snd (serve e req w)) = documents w"
proof (cases rule: serve_cases [of e req w])
  case rejected
  then show ?thesis by (simp add: documents_serve_rejected)
next
  case (routed p et)
  with assms have "et \<noteq> Some (JStr ''document.processing.started'')"
    "et \<noteq> Some (JStr ''document.processing.completed'')"
    "et \<noteq> Some (JStr ''document.processing.failed'')"
    by auto
  then show ?thesis
    by (simp add: documents_serve_routed [OF routed] documents_route_other)
qed

lemma job_rows_documents:
  "documents w' = documents w \<Longrightarrow> job_rows j w' = job_rows j w"
  by (simp add: job_rows_def)

lemma defaults_documents_job_id: "defaults e n ''doclayer_documents'' ''doclayer_job_id'' = None"
  by (simp add: defaults_def)

text \<open>
  C3, as stated, has no \<open>completed\<close> or \<open>failed\<close> event create a row. The two
  document handlers upsert (\<open>onConflict: "doclayer_job_id"\<close>): on an empty table the
  \<open>document.processing.completed\<close> request of the specification's own scenario
  creates the row of \<open>job_1\<close>.
\<close>

theorem completed_creates_document_row:
  "job_rows ''job_1'' empty_world = []
   \<and> map (\<lambda>r. (r ''doclayer_job_id'', r ''status''))
       (documents (snd (serve example_env
          (post [(''x-webhook-event'', ''document.processing.completed'')] completed_body)
          empty_world)))
     = [(Some (JStr ''job_1''), Some (JStr ''completed''))]"
  by (simp add: completed_documents [OF example_routed(1) example_job_keys(1) example_accepts]
        job_rows_def documents_empty_world upsert_rows_def row_fields example_job_ids)

text \<open>
  C3, amended: a row of \<open>doclayer_batches\<close> is created only by a request taken up as
  \<open>batch.started\<close>, and a row of \<open>doclayer_workflows\<close> only by one taken up as
  \<open>workflow.started\<close>: every other request, the \<open>completed\<close>, \<open>failed\<close> and
  \<open>progress\<close> events among them, leaves the number of rows of the table as it was.
  A row of \<open>doclayer_documents\<close> is created only by a request taken up as
  \<open>document.processing.started\<close>, \<open>document.processing.completed\<close> or
  \<open>document.processing.failed\<close>: every other request leaves the document table as it
  was. A \<open>document.processing.completed\<close> or \<open>document.processing.failed\<close> event whose
  upsert the database accepts, arriving when no row exists for its job identifier,
  creates that row, with status \<open>completed\<close> for a completed event and \<open>failed\<close> for a
  failed one.
\<close>

theorem rows_created_by_started_and_document_events:
  "((\<forall>p. \<not> routed e req p (Some (JStr ''batch.started''))) \<longrightarrow>
      length (tables (snd (serve e req w)) ''doclayer_batches'')
        = length (tables w ''doclayer_batches''))
   \<and> ((\<forall>p. \<not> routed e req p (Some (JStr ''workflow.started''))) \<longrightarrow>
      length (tables (snd (serve e req w)) ''doclayer_workflows'')
        = length (tables w ''doclayer_workflows''))
   \<and> ((\<forall>p. \<not> routed e req p (Some (JStr ''document.processing.started''))
            \<and> \<not> routed e req p (Some (JStr ''document.processing.completed''))
            \<and> \<not> routed e req p (Some (JStr ''document.processing.failed''))) \<longrightarrow>
      documents (snd (serve e req w)) = documents w)
   \<and> (routed e req payload (Some (JStr ''document.processing.completed''))
       \<and> job_key e payload = Some (JStr j)
       \<and> db_error e ''doclayer_documents'' Upsert = None
       \<and> job_rows j w = []
      \<longrightarrow> length (job_rows j (snd (serve e req w))) = 1
          \<and> length (documents (snd (serve e req w))) = Suc (length (documents w))
          \<and> list_all (\<lambda>r. r ''status'' = Some (JStr ''completed''))
               (job_rows j (snd (serve e req w))))
   \<and> (routed e req payload (Some (JStr ''document.processing.failed''))
       \<and> job_key e payload = Some (JStr j)
       \<and> db_error e ''doclayer_documents'' Upsert = None
       \<and> job_rows j w = []
      \<longrightarrow> length (job_rows j (snd (serve e req w))) = 1
          \<and> length (documents (snd (serve e req w))) = Suc (length (documents w))
          \<and> list_all (\<lambda>r. r ''status'' = Some (JStr ''failed''))
               (job_rows j (snd (serve e req w))))"
proof -
  have 1: "(\<forall>p. \<not> routed e req p (Some (JStr ''batch.started''))) \<longrightarrow>
      length (tables (snd (serve e req w)) ''doclayer_batches'')
        = length (tables w ''doclayer_batches'')"
    by (intro impI serve_length_unless [where k = "''batch.started''"] route_length_batches)
       simp_all
  have 2: "(\<forall>p. \<not> routed e req p (Some (JStr ''workflow.started''))) \<longrightarrow>
      length (tables (snd (serve e req w)) ''doclayer_workflows'')
        = length (tables w ''doclayer_workflows'')"
    by (intro impI serve_length_unless [where k = "''workflow.started''"] route_length_workflows)
       simp_all
  have 3: "(\<forall>p. \<not> routed e req p (Some (JStr ''document.processing.started''))
            \<and> \<not> routed e req p (Some (JStr ''document.processing.completed''))
            \<and> \<not> routed e req p (Some (JStr ''document.processing.failed''))) \<longrightarrow>
      documents (snd (serve e req w)) = documents w"
    by (intro impI documents_serve_other)
  have 4: "routed e req payload (Some (JStr ''document.processing.completed''))
       \<and> job_key e payload = Some (JStr j)
       \<and> db_error e ''doclayer_documents'' Upsert = None
       \<and> job_rows j w = []
      \<longrightarrow> length (job_rows j (snd (serve e req w))) = 1
          \<and> length (documents (snd (serve e req w))) = Suc (length (documents w))
          \<and> list_all (\<lambda>r. r ''status'' = Some (JStr ''completed''))
               (job_rows j (snd (serve e req w)))"
  proof (intro impI, elim conjE)
    assume r: "routed e req payload (Some (JStr ''document.processing.completed''))"
      and jid: "job_key e payload = Some (JStr j)"
      and a: "db_error e ''doclayer_documents'' Upsert = None" and none: "job_rows j w = []"
    let ?cols = "completed_columns e (field (Some payload) ''data'') payload"
    have key: "?cols ''doclayer_job_id'' = Some (JStr j)" by (simp add: job_key_columns jid)
    note rows = upsert_step_rows [OF completed_documents [OF r jid a, of w] key]
    show "length (job_rows j (snd (serve e req w))) = 1
          \<and> length (documents (snd (serve e req w))) = Suc (length (documents w))
          \<and> list_all (\<lambda>r. r ''status'' = Some (JStr ''completed''))
               (job_rows j (snd (serve e req w)))"
      using none by (simp add: rows row_fields)
  qed
  have 5: "routed e req payload (Some (JStr ''document.processing.failed''))
       \<and> job_key e payload = Some (JStr j)
       \<and> db_error e ''doclayer_documents'' Upsert = None
       \<and> job_rows j w = []
      \<longrightarrow> length (job_rows j (snd (serve e req w))) = 1
          \<and> length (documents (snd (serve e req w))) = Suc (length (documents w))
          \<and> list_all (\<lambda>r. r ''status'' = Some (JStr ''failed''))
               (job_rows j (snd (serve e req w)))"
  proof (intro impI, elim conjE)
    assume r: "routed e req payload (Some (JStr ''document.processing.failed''))"
      and jid: "job_key e payload = Some (JStr j)"
      and a: "db_error e ''doclayer_documents'' Upsert = None" and none: "job_rows j w = []"
    let ?cols = "failed_columns e (field (Some payload) ''data'') payload"
    have key: "?cols ''doclayer_job_id'' = Some (JStr j)" by (simp add: job_key_columns jid)
    note rows = upsert_step_rows [OF failed_documents [OF r jid a, of w] key]
    show "length (job_rows j (snd (serve e req w))) = 1
          \<and> length (documents (snd (serve e req w))) = Suc (length (documents w))
          \<and> list_all (\<lambda>r. r ''status'' = Some (JStr ''failed''))
               (job_rows j (snd (serve e req w)))"
      using none by (simp add: rows row_fields)
  qed
  from 1 2 3 4 5 show ?thesis by blast
qed

theorem rows_created_by_started_and_document_events_witness:
  "routed example_env (post [] batch_completed_body) batch_completed_payload
     (Some (JStr ''batch.completed''))
   \<and> tables empty_world ''doclayer_batches'' = []
   \<and> tables (snd (serve example_env (post [] batch_completed_body) empty_world))
        ''doclayer_batches'' = []
   \<and> routed example_env (post [] archived_body) archived_payload
        (Some (JStr ''document.archived''))
   \<and> documents (snd (serve example_env (post [] archived_body) completed_world))
        = documents completed_world
   \<and> routed example_env (post [] failed_body) failed_payload
        (Some (JStr ''document.processing.failed''))
   \<and> job_key example_env failed_payload = Some (JStr ''job_1'')
   \<and> db_error example_env ''doclayer_documents'' Upsert = None
   \<and> job_rows ''job_1'' empty_world = []
   \<and> length (job_rows ''job_1'' (snd (serve example_env (post [] failed_body) empty_world))) = 1
   \<and> list_all (\<lambda>r. r ''status'' = Some (JStr ''failed''))
        (job_rows ''job_1'' (snd (serve example_env (post [] failed_body) empty_world)))"
proof -
  have nb: "\<forall>p. \<not> routed example_env (post [] batch_completed_body) p (Some (JStr ''batch.started''))"
    using routed_unique [OF example_batch_routed] by auto
  have nd: "\<forall>p. \<not> routed example_env (post [] archived_body) p
                     (Some (JStr ''document.processing.started''))
              \<and> \<not> routed example_env (post [] archived_body) p
                     (Some (JStr ''document.processing.completed''))
              \<and> \<not> routed example_env (post [] archived_body) p
                     (Some (JStr ''document.processing.failed''))"
    using routed_unique [OF example_routed(4)] by auto
  have e0: "tables empty_world ''doclayer_batches'' = []" "job_rows ''job_1'' empty_world = []"
    by (simp_all add: empty_world_def job_rows_def documents_def)
  note B = rows_created_by_started_and_document_events
         [of example_env "post [] batch_completed_body" empty_world]
  have "length (tables (snd (serve example_env (post [] batch_completed_body) empty_world))
          ''doclayer_batches'') = length (tables empty_world ''doclayer_batches'')"
    by (rule mp [OF conjunct1 [OF B] nb])
  then have b: "tables (snd (serve example_env (post [] batch_completed_body) empty_world))
        ''doclayer_batches'' = []"
    by (simp add: e0)
  note A = rows_created_by_started_and_document_events
         [of example_env "post [] archived_body" completed_world]
  have a: "documents (snd (serve example_env (post [] archived_body) completed_world))
        = documents completed_world"
    by (rule mp [OF conjunct1 [OF conjunct2 [OF conjunct2 [OF A]]] nd])
  note F = rows_created_by_started_and_document_events
         [of example_env "post [] failed_body" empty_world failed_payload "''job_1''"]
  have d: "length (job_rows ''job_1'' (snd (serve example_env (post [] failed_body) empty_world))) = 1
        \<and> length (documents (snd (serve example_env (post [] failed_body) empty_world)))
            = Suc (length (documents empty_world))
        \<and> list_all (\<lambda>r. r ''status'' = Some (JStr ''failed''))
             (job_rows ''job_1'' (snd (serve example_env (post [] failed_body) empty_world)))"
    by (rule mp [OF conjunct2 [OF conjunct2 [OF conjunct2 [OF conjunct2 [OF F]]]]
          conjI [OF example_routed(3) conjI [OF example_job_keys(3)
            conjI [OF example_accepts e0(2)]]]])
  show ?thesis
    by (intro conjI example_batch_routed e0 b example_routed(4) a example_routed(3)
          example_job_keys(3) example_accepts conjunct1 [OF d] conjunct2 [OF conjunct2 [OF d]])
qed

section \<open>Status transitions of a document\<close>

lemma terminal_upsert:
  assumes inv: "\<forall>r \<in> set (filter (\<lambda>x. x ''doclayer_job_id'' = Some (JStr j)) rows). terminal r"
    and st: "terminal cols"
  shows "\<forall>r \<in> set (filter (\<lambda>x. x ''doclayer_job_id'' = Some (JStr j))
            (upsert_rows e n ''doclayer_documents'' ''doclayer_job_id'' cols rows)). terminal r"
proof
  fix r
  assume "r \<in> set (filter (\<lambda>x. x ''doclayer_job_id'' = Some (JStr j))
            (upsert_rows e n ''doclayer_documents'' ''doclayer_job_id'' cols rows))"
  then have mem: "r \<in> set (upsert_rows e n ''doclayer_documents'' ''doclayer_job_id'' cols rows)"
    and job: "r ''doclayer_job_id'' = Some (JStr j)" by simp_all
  have over: "terminal (x ++ cols)" for x
    using st by (auto simp add: terminal_def map_add_def)
  have upd: "terminal (on_update e ''doclayer_documents'' (x ++ cols))" for x
    using over [of x] by (simp add: terminal_def on_update_other)
  from upsert_rows_cases [OF mem] show "terminal r"
    using inv job over upd by auto
qed

lemma terminal_columns:
  "terminal (completed_columns e d p)" "terminal (failed_columns e d p)"
  by (simp_all add: terminal_def document_columns)

lemma terminal_step:
  assumes inv: "\<forall>r \<in> set (job_rows j w). terminal r"
    and ns: "\<not> starts_job e req j"
  shows "\<forall>r \<in> set (job_rows j (snd (serve e req w))). terminal r"
proof (cases rule: serve_cases [of e req w])
  case rejected
  then show ?thesis using inv
    by (simp add: job_rows_documents [OF documents_serve_rejected])
next
  case (routed p et)
  note docs = documents_serve_routed [OF routed, of w]
  let ?w = "snd (received e req et p w)"
  let ?d = "field (Some p) ''data''"
  have inv': "\<forall>r \<in> set (filter (\<lambda>x. x ''doclayer_job_id'' = Some (JStr j)) (documents w)). terminal r"
    using inv by (simp add: job_rows_def)
  consider (started) "et = Some (JStr ''document.processing.started'')"
    | (completed) "et = Some (JStr ''document.processing.completed'')"
    | (failed) "et = Some (JStr ''document.processing.failed'')"
    | (other) "et \<noteq> Some (JStr ''document.processing.started'')"
        "et \<noteq> Some (JStr ''document.processing.completed'')"
        "et \<noteq> Some (JStr ''document.processing.failed'')"
    by blast
  then show ?thesis
  proof cases
    case started
    have "JSON_parse e (req_text req) = Inr p" using routed by (simp add: routed_def)
    then have key: "started_columns e ?d p ''doclayer_job_id'' \<noteq> Some (JStr j)"
      using ns routed started by (simp add: starts_job_def job_key_columns)
    have f: "filter (\<lambda>x. x ''doclayer_job_id'' = Some (JStr j))
               (upsert_rows e n ''doclayer_documents'' ''doclayer_job_id''
                  (started_columns e ?d p) rows)
             = filter (\<lambda>x. x ''doclayer_job_id'' = Some (JStr j)) rows" for n rows
      by (rule filter_upsert_other_key [of "started_columns e ?d p" "''doclayer_job_id''" j])
         (simp_all add: key defaults_documents_job_id)
    have "job_rows j (snd (serve e req w)) = job_rows j w"
      unfolding job_rows_def docs started route_keys documents_with_data documents_started
      by (simp add: f)
    then show ?thesis using inv by simp
  next
    case completed
    show ?thesis
      unfolding job_rows_def docs completed route_keys documents_with_data documents_completed
      using inv' terminal_upsert [where cols = "completed_columns e ?d p" and e = e
          and n = "inserted ?w" and rows = "documents w" and j = j,
          OF inv' terminal_columns(1)]
      by (simp add: completed)
  next
    case failed
    show ?thesis
      unfolding job_rows_def docs failed route_keys documents_with_data documents_failed
      using inv' terminal_upsert [where cols = "failed_columns e ?d p" and e = e
          and n = "inserted ?w" and rows = "documents w" and j = j,
          OF inv' terminal_columns(2)]
      by (simp add: failed)
  next
    case other
    have "documents (snd (serve e req w)) = documents w"
      by (simp add: docs documents_route_other [OF other])
    then show ?thesis using inv by (simp add: job_rows_def)
  qed
qed

lemma serve_all_terminal:
  assumes "\<forall>r \<in> set (job_rows j w). terminal r"
    and "\<forall>(e, req) \<in> set rs. \<not> starts_job e req j"
  shows "\<forall>r \<in> set (job_rows j (serve_all rs w)). terminal r"
  using assms
proof (induction rs arbitrary: w)
  case Nil
  then show ?case by simp
next
  case (Cons x rs)
  obtain e req where x: "x = (e, req)" by (cases x)
  have "\<forall>r \<in> set (job_rows j (snd (serve e req w))). terminal r"
    using Cons.prems x by (intro terminal_step) auto
  then show ?case using Cons.IH Cons.prems(2) x by simp
qed

text \<open>
  C4, as stated, has no later event set a terminal row back to a non-terminal status.
  \<open>handleProcessingStarted\<close> upserts \<open>status: "processing"\<close> without reading the
  row: a \<open>document.processing.started\<close> event for \<open>job_1\<close> after its
  \<open>completed\<close> event leaves the one row of \<open>job_1\<close> in status \<open>processing\<close>.
\<close>

theorem started_after_completed_reverts:
  "map (\<lambda>r. (r ''doclayer_job_id'', r ''status''))
     (documents (snd (serve example_env
        (post [(''x-webhook-event'', ''document.processing.completed'')] completed_body)
        empty_world)))
     = [(Some (JStr ''job_1''), Some (JStr ''completed''))]
   \<and> map (\<lambda>r. (r ''doclayer_job_id'', r ''status''))
       (documents (snd (serve example_env (post [] started_body)
          (snd (serve example_env
             (post [(''x-webhook-event'', ''document.processing.completed'')] completed_body)
             empty_world)))))
     = [(Some (JStr ''job_1''), Some (JStr ''processing''))]"
  by (simp add: completed_documents [OF example_routed(1) example_job_keys(1) example_accepts]
        started_documents [OF example_routed(2) example_job_keys(2) example_accepts]
        documents_empty_world upsert_rows_def conflicts_def row_fields example_job_ids
        document_columns on_update_other)

text \<open>
  C4, amended: once every row of a job identifier holds a terminal status, it holds one
  after every sequence of requests none of which starts that job (none is taken up as
  \<open>document.processing.started\<close> with a \<open>job_id\<close> that the key column stores as this
  identifier): \<open>completed\<close> and \<open>failed\<close> events write a terminal status again and
  every other event leaves the row alone. A later \<open>document.processing.started\<close> event
  for the job that the database accepts does set the row to \<open>processing\<close> (the last
  writer wins). A \<open>document.processing.failed\<close> event that the database accepts leaves
  the row in status \<open>failed\<close> with \<open>error_message\<close> the text of the event's \<open>error\<close>.
\<close>

theorem terminal_status_kept_unless_restarted:
  "((\<forall>r \<in> set (job_rows j w). terminal r) \<and> (\<forall>(e, req) \<in> set rs. \<not> starts_job e req j)
      \<longrightarrow> (\<forall>r \<in> set (job_rows j (serve_all rs w)). terminal r))
   \<and> (starts_job e req j \<and> db_error e ''doclayer_documents'' Upsert = None
      \<longrightarrow> job_rows j (snd (serve e req w)) \<noteq> []
          \<and> (\<forall>r \<in> set (job_rows j (snd (serve e req w))). r ''status'' = Some (JStr ''processing'')))
   \<and> (routed e req payload (Some (JStr ''document.processing.failed''))
       \<and> job_key e payload = Some (JStr j)
       \<and> field (field (Some payload) ''data'') ''error'' = Some message
       \<and> db_error e ''doclayer_documents'' Upsert = None
      \<longrightarrow> job_rows j (snd (serve e req w)) \<noteq> []
          \<and> (\<forall>r \<in> set (job_rows j (snd (serve e req w))).
                r ''status'' = Some (JStr ''failed'')
                \<and> r ''error_message'' = Some (as_text e message)))"
proof -
  have 1: "(\<forall>r \<in> set (job_rows j w). terminal r) \<and> (\<forall>(e, req) \<in> set rs. \<not> starts_job e req j)
      \<longrightarrow> (\<forall>r \<in> set (job_rows j (serve_all rs w)). terminal r)"
    using serve_all_terminal [of j w rs] by blast
  have 2: "starts_job e req j \<and> db_error e ''doclayer_documents'' Upsert = None
      \<longrightarrow> job_rows j (snd (serve e req w)) \<noteq> []
          \<and> (\<forall>r \<in> set (job_rows j (snd (serve e req w))). r ''status'' = Some (JStr ''processing''))"
  proof (intro impI, elim conjE)
    assume sj: "starts_job e req j" and a: "db_error e ''doclayer_documents'' Upsert = None"
    from sj obtain payload
      where r: "routed e req payload (Some (JStr ''document.processing.started''))"
        and jid: "job_key e payload = Some (JStr j)"
      by (auto simp add: starts_job_def split: sum.splits)
    let ?cols = "started_columns e (field (Some payload) ''data'') payload"
    have key: "?cols ''doclayer_job_id'' = Some (JStr j)"
      by (simp add: job_key_columns jid)
    note rows = upsert_step_rows(1) [OF started_documents [OF r jid a, of w] key]
    show "job_rows j (snd (serve e req w)) \<noteq> []
          \<and> (\<forall>r \<in> set (job_rows j (snd (serve e req w))). r ''status'' = Some (JStr ''processing''))"
      by (auto simp add: rows on_update_other document_columns)
  qed
  have 3: "routed e req payload (Some (JStr ''document.processing.failed''))
       \<and> job_key e payload = Some (JStr j)
       \<and> field (field (Some payload) ''data'') ''error'' = Some message
       \<and> db_error e ''doclayer_documents'' Upsert = None
      \<longrightarrow> job_rows j (snd (serve e req w)) \<noteq> []
          \<and> (\<forall>r \<in> set (job_rows j (snd (serve e req w))).
                r ''status'' = Some (JStr ''failed'')
                \<and> r ''error_message'' = Some (as_text e message))"
  proof (intro impI, elim conjE)
    assume r: "routed e req payload (Some (JStr ''document.processing.failed''))"
      and jid: "job_key e payload = Some (JStr j)"
      and msg: "field (field (Some payload) ''data'') ''error'' = Some message"
      and a: "db_error e ''doclayer_documents'' Upsert = None"
    let ?cols = "failed_columns e (field (Some payload) ''data'') payload"
    have key: "?cols ''doclayer_job_id'' = Some (JStr j)"
      by (simp add: job_key_columns jid)
    note rows = upsert_step_rows(1) [OF failed_documents [OF r jid a, of w] key]
    show "job_rows j (snd (serve e req w)) \<noteq> []
          \<and> (\<forall>r \<in> set (job_rows j (snd (serve e req w))).
                r ''status'' = Some (JStr ''failed'')
                \<and> r ''error_message'' = Some (as_text e message))"
      by (auto simp add: rows on_update_other document_columns msg)
  qed
  from 1 2 3 show ?thesis by blast
qed

theorem terminal_status_kept_unless_restarted_witness:
  "list_all terminal (job_rows ''job_1'' completed_world)
   \<and> job_rows ''job_1'' completed_world \<noteq> []
   \<and> \<not> starts_job example_env (post [] failed_body) ''job_1''
   \<and> \<not> starts_job example_env (post [] archived_body) ''job_1''
   \<and> list_all terminal
        (job_rows ''job_1'' (serve_all [(example_env, post [] failed_body),
                                        (example_env, post [] archived_body)] completed_world))
   \<and> starts_job example_env (post [] started_body) ''job_1''
   \<and> db_error example_env ''doclayer_documents'' Upsert = None
   \<and> job_rows ''job_1'' (snd (serve example_env (post [] started_body) completed_world)) \<noteq> []
   \<and> list_all (\<lambda>r. r ''status'' = Some (JStr ''processing''))
        (job_rows ''job_1'' (snd (serve example_env (post [] started_body) completed_world)))"
proof -
  have seq: "\<forall>(e, req) \<in> set [(example_env, post [] failed_body),
                                 (example_env, post [] archived_body)].
               \<not> starts_job e req ''job_1''"
    by (simp add: example_starts)
  note T = terminal_status_kept_unless_restarted [of "''job_1''" completed_world
          "[(example_env, post [] failed_body), (example_env, post [] archived_body)]"
          example_env "post [] started_body" failed_payload "JStr ''unreadable''"]
  have a: "\<forall>r \<in> set (job_rows ''job_1'' (serve_all [(example_env, post [] failed_body),
                                        (example_env, post [] archived_body)] completed_world)).
          terminal r"
    by (rule mp [OF conjunct1 [OF T] conjI [OF completed_world_rows(2) seq]])
  have b: "job_rows ''job_1'' (snd (serve example_env (post [] started_body) completed_world)) \<noteq> []
      \<and> (\<forall>r \<in> set (job_rows ''job_1'' (snd (serve example_env (post [] started_body)
                                               completed_world))).
          r ''status'' = Some (JStr ''processing''))"
    by (rule mp [OF conjunct1 [OF conjunct2 [OF T]] conjI [OF example_starts(1) example_accepts]])
  have c: "list_all terminal (job_rows ''job_1'' completed_world)"
    using completed_world_rows(2) by (simp only: list_all_iff)
  from a have a': "list_all terminal
        (job_rows ''job_1'' (serve_all [(example_env, post [] failed_body),
                                        (example_env, post [] archived_body)] completed_world))"
    by (simp only: list_all_iff)
  from conjunct2 [OF b] have b': "list_all (\<lambda>r. r ''status'' = Some (JStr ''processing''))
        (job_rows ''job_1'' (snd (serve example_env (post [] started_body) completed_world)))"
    by (simp only: list_all_iff)
  show ?thesis
    by (intro conjI c completed_world_rows(1) example_starts(2) example_starts(3) a'
          example_starts(1) example_accepts conjunct1 [OF b] b')
qed

text \<open>
  The job identifier is compared as the text the key column stores: a started event
  whose \<open>job_id\<close> is the number 7 starts the job \<open>7\<close>, and writes its row.
\<close>

lemma numbered_job_started:
  "starts_job example_env (post [] numbered_body) ''7''
   \<and> map (\<lambda>r. (r ''doclayer_job_id'', r ''status''))
       (documents (snd (serve example_env (post [] numbered_body) empty_world)))
     = [(Some (JStr ''7''), Some (JStr ''processing''))]"
proof -
  have j: "field (field (Some numbered_payload) ''data'') ''job_id'' = Some (JNum 7)"
    by (simp add: numbered_payload_def)
  have t: "as_text example_env (JNum 7) = JStr ''7''"
    by (simp add: as_text_def example_env_def example_db_text_def example_String_of_def)
  show ?thesis
    by (simp add: example_starts
        started_documents [OF example_routed(5) example_job_keys(4) example_accepts]
        documents_empty_world upsert_rows_def conflicts_def row_fields(5) [OF j]
        row_fields(2) t)
qed

end
